theory Spec2Isabelle
  imports Complex_Main "HOL-Library.Sublist" "HOL-Library.Log_Nat"
begin

section \<open>Data model\<close>

text \<open>
  The program (\<^verbatim>\<open>workshift.py\<close>) reads a schedule table with pandas, validates its
  columns, normalises two date columns, filters the rows and adds a duration column.

  Strings are HOL strings, read as sequences of code points below 256.

  A Python \<^verbatim>\<open>datetime\<close> is a record of its fields. pandas stores the parsed dates of a
  column as instants and compares and subtracts instants, so the order and the
  difference of two datetimes go through \<open>timestamp\<close>, the number of seconds since the
  start of the proleptic Gregorian calendar (CPython's \<^verbatim>\<open>_ymd2ord\<close>).
\<close>

record datetime =
  year :: nat
  month :: nat
  day :: nat
  hour :: nat
  minute :: nat
  second :: nat

definition is_leap :: "nat \<Rightarrow> bool" where
  "is_leap y = (y mod 4 = 0 \<and> (y mod 100 \<noteq> 0 \<or> y mod 400 = 0))"

definition days_before_year :: "nat \<Rightarrow> int" where
  "days_before_year y = (let z = int y - 1 in z * 365 + z div 4 - z div 100 + z div 400)"

definition days_in_month :: "nat \<Rightarrow> nat \<Rightarrow> nat" where
  "days_in_month y m =
     (if m = 2 \<and> is_leap y then 29
      else [0, 31, 28, 31, 30, 31, 30, 31, 31, 30, 31, 30, 31] ! m)"

definition days_before_month :: "nat \<Rightarrow> nat \<Rightarrow> int" where
  "days_before_month y m =
     int ([0, 0, 31, 59, 90, 120, 151, 181, 212, 243, 273, 304, 334] ! m)
       + (if m > 2 \<and> is_leap y then 1 else 0)"

definition ymd2ord :: "nat \<Rightarrow> nat \<Rightarrow> nat \<Rightarrow> int" where
  "ymd2ord y m d = days_before_year y + days_before_month y m + int d"

definition timestamp :: "datetime \<Rightarrow> int" where
  "timestamp t =
     ymd2ord (year t) (month t) (day t) * 86400
       + int (hour t) * 3600 + int (minute t) * 60 + int (second t)"

text \<open>
  A cell of a pandas column: a missing value (\<^verbatim>\<open>NaN\<close>, \<^verbatim>\<open>None\<close>, \<^verbatim>\<open>NaT\<close>, what
  \<^verbatim>\<open>pd.isna\<close> accepts), a Python string, a number (the readers infer numeric columns,
  and the duration is one), or a datetime.
\<close>

datatype cell = Missing | Text string | Number rat | Stamp datetime

datatype dtype = Object | Float64 | Int64 | Datetime64

type_synonym row = "string \<Rightarrow> cell"

text \<open>
  A \<^verbatim>\<open>DataFrame\<close>: its column labels, the storage type of each column, and its rows
  in order, each with its index label (row filters keep the labels). A row is read
  only at the labels in \<open>columns\<close>.
\<close>

record frame =
  columns :: "string list"
  dtypes :: "string \<Rightarrow> dtype"
  rows :: "(nat \<times> row) list"

subsection \<open>Exceptions and console output\<close>

text \<open>
  An exception is its class and its message (what \<^verbatim>\<open>str(e)\<close> returns). The messages
  are kept as terms, one constructor per message template of the source and of the
  library calls it makes.
\<close>

datatype exn_class =
  FileNotFoundError | ValueError | UnicodeDecodeError | AttributeError
  | LibraryError | Exception

datatype msg =
    File_missing string
  | Unsupported_format string
  | No_encoding_worked
  | Missing_columns "string list"
  | No_valid_rows
  | No_prod_rows
  | Bad_start_filter string msg
  | Bad_end_filter string msg
  | No_rows_in_range string string
  | Error_processing msg
  | Does_not_match string string
  | Unconverted_data string
  | Date_out_of_range
  | Str_accessor_needs_strings
  | Library_message string

type_synonym exn = "exn_class \<times> msg"

datatype event =
    Trying_encoding string
  | Read_ok string
  | Decode_failed string
  | Unexpected_failure string msg
  | Show_columns "string list"
  | Show_head "(nat \<times> cell list) list"
  | Processing_column string
  | Could_not_parse cell
  | Invalid_dates_warning string "(nat \<times> cell \<times> cell) list"

text \<open>
  A computation prints lines and then either raises or returns: the lines printed, and
  \<open>Inl\<close> the exception or \<open>Inr\<close> the value.
\<close>

type_synonym 'a run = "event list \<times> (exn + 'a)"

definition then_run :: "'a run \<Rightarrow> ('a \<Rightarrow> 'b run) \<Rightarrow> 'b run" where
  "then_run m f =
     (case m of
        (out, Inl e) \<Rightarrow> (out, Inl e)
      | (out, Inr x) \<Rightarrow> (case f x of (out', r) \<Rightarrow> (out @ out', r)))"

definition quiet :: "exn + 'a \<Rightarrow> 'a run" where
  "quiet r = ([], r)"

text \<open>
  What the program reads from outside: whether a path exists, the path separators of the
  platform, and the two pandas readers, which return a table or raise.
\<close>

record world =
  path_exists :: "string \<Rightarrow> bool"
  path_seps :: "char list"
  read_excel :: "string \<Rightarrow> string \<Rightarrow> exn + frame"
  read_csv :: "string \<Rightarrow> string \<Rightarrow> exn + frame"

section \<open>Library calls\<close>

subsection \<open>\<^verbatim>\<open>datetime.strptime\<close>\<close>

text \<open>
  CPython turns the format into a regular expression and matches it at the start of the
  text, alternatives in order and with backtracking; text left over after the match, or
  a date that does not exist, raises \<^verbatim>\<open>ValueError\<close>. The model covers the directives
  \<^verbatim>\<open>%d %m %y %Y %H %M\<close>, white space and literal punctuation, which is what the two
  formats of the program use. Each directive gives its matches in the order the regular
  expression tries them.
\<close>

definition is_digit :: "char \<Rightarrow> bool" where
  "is_digit c = (48 \<le> (of_char c :: nat) \<and> (of_char c :: nat) \<le> 57)"

definition digit_val :: "char \<Rightarrow> nat" where
  "digit_val c = of_char c - 48"

definition is_space :: "char \<Rightarrow> bool" where
  "is_space c = (let n = (of_char c :: nat) in
     (9 \<le> n \<and> n \<le> 13) \<or> (28 \<le> n \<and> n \<le> 32) \<or> n = 133 \<or> n = 160)"

fun digits :: "nat \<Rightarrow> string \<Rightarrow> (nat \<times> string) list" where
  "digits 0 s = [(0, s)]"
| "digits (Suc n) [] = []"
| "digits (Suc n) (c # s) =
     (if is_digit c then map (\<lambda>(v, r). (digit_val c * 10 ^ n + v, r)) (digits n s) else [])"

definition between :: "nat \<Rightarrow> nat \<Rightarrow> (nat \<times> string) list \<Rightarrow> (nat \<times> string) list" where
  "between lo hi ms = filter (\<lambda>(v, r). lo \<le> v \<and> v \<le> hi) ms"

definition directive :: "char \<Rightarrow> string \<Rightarrow> (nat \<times> string) list" where
  "directive c s =
     (if c = CHR ''d'' then
        between 1 31 (digits 2 s) @ between 1 9 (digits 1 s)
          @ (case s of [] \<Rightarrow> [] | b # r \<Rightarrow> if b = CHR '' '' then between 1 9 (digits 1 r) else [])
      else if c = CHR ''m'' then between 1 12 (digits 2 s) @ between 1 9 (digits 1 s)
      else if c = CHR ''y'' then digits 2 s
      else if c = CHR ''Y'' then digits 4 s
      else if c = CHR ''H'' then between 0 23 (digits 2 s) @ digits 1 s
      else if c = CHR ''M'' then between 0 59 (digits 2 s) @ digits 1 s
      else [])"

fun spaces :: "string \<Rightarrow> string list" where
  "spaces [] = []"
| "spaces (c # s) = (if is_space c then spaces s @ [s] else [])"

text \<open>
  \<open>re_match fmt s\<close>: the ways the format matches a prefix of \<open>s\<close>, first the one the
  regular expression engine finds; each is the directives' values and the rest of \<open>s\<close>.
\<close>

fun re_match :: "string \<Rightarrow> string \<Rightarrow> ((char \<times> nat) list \<times> string) list" where
  "re_match [] s = [([], s)]"
| "re_match [c] s =
     (if is_space c then concat (map (re_match []) (spaces s))
      else (case s of [] \<Rightarrow> [] | b # r \<Rightarrow> if b = c then re_match [] r else []))"
| "re_match (c # c' # fmt) s =
     (if c = CHR ''%'' then
        concat (map (\<lambda>(v, r). map (\<lambda>(fs, r'). ((c', v) # fs, r')) (re_match fmt r))
                    (directive c' s))
      else if is_space c then
        (if is_space c' then re_match (c' # fmt) s
         else concat (map (re_match (c' # fmt)) (spaces s)))
      else (case s of [] \<Rightarrow> [] | b # r \<Rightarrow> if b = c then re_match (c' # fmt) r else []))"

definition field :: "(char \<times> nat) list \<Rightarrow> char \<Rightarrow> nat \<Rightarrow> nat" where
  "field fs c dflt = (case map_of fs c of None \<Rightarrow> dflt | Some v \<Rightarrow> v)"

definition strptime :: "string \<Rightarrow> string \<Rightarrow> exn + datetime" where
  "strptime s fmt =
     (case re_match fmt s of
        [] \<Rightarrow> Inl (ValueError, Does_not_match s fmt)
      | (fs, rest) # _ \<Rightarrow>
          if rest \<noteq> [] then Inl (ValueError, Unconverted_data rest)
          else
            let y = (case map_of fs (CHR ''Y'') of
                       Some v \<Rightarrow> v
                     | None \<Rightarrow> (case map_of fs (CHR ''y'') of
                                  Some v \<Rightarrow> if v \<le> 68 then v + 2000 else v + 1900
                                | None \<Rightarrow> 1900));
                m = field fs (CHR ''m'') 1;
                d = field fs (CHR ''d'') 1
            in if y < 1 \<or> days_in_month y m < d then Inl (ValueError, Date_out_of_range)
               else Inr \<lparr>year = y, month = m, day = d,
                         hour = field fs (CHR ''H'') 0, minute = field fs (CHR ''M'') 0,
                         second = 0\<rparr>)"

subsection \<open>\<^verbatim>\<open>os.path.splitext\<close> and \<^verbatim>\<open>str.lower\<close>\<close>

text \<open>
  \<^verbatim>\<open>splitext\<close> splits at the last dot of the last path component, unless only dots
  precede it there. \<^verbatim>\<open>lower\<close> maps the upper-case letters below code point 256.
\<close>

definition splitext :: "char list \<Rightarrow> string \<Rightarrow> string \<times> string" where
  "splitext seps p =
     (let name = rev (takeWhile (\<lambda>c. c \<notin> set seps) (rev p));
          ext = rev (takeWhile (\<lambda>c. c \<noteq> CHR ''.'') (rev name));
          stem = take (length name - length ext - 1) name
      in if CHR ''.'' \<in> set name \<and> list_ex (\<lambda>c. c \<noteq> CHR ''.'') stem
         then (take (length p - length ext - 1) p, CHR ''.'' # ext)
         else (p, []))"

definition lower :: "string \<Rightarrow> string" where
  "lower s =
     map (\<lambda>c. let n = (of_char c :: nat) in
            if (65 \<le> n \<and> n \<le> 90) \<or> (192 \<le> n \<and> n \<le> 222 \<and> n \<noteq> 215)
            then char_of (n + 32) else c) s"

subsection \<open>Binary floating point\<close>

text \<open>
  A Python \<^verbatim>\<open>float\<close> and a \<^verbatim>\<open>float64\<close> of numpy are IEEE 754 binary64 numbers, and an
  arithmetic operation returns the number of that format nearest to the exact result, a
  tie going to the even significand. The finite numbers of the format are rationals,
  and \<open>float64 q\<close> is the one nearest to \<open>q\<close>: the magnitude of \<open>q\<close> is scaled by the power
  of two that brings it between \<open>2 ^ 52\<close> and \<open>2 ^ 53\<close>, rounded to an integer, half to
  even, and scaled back. The range of the exponent (overflow, subnormal numbers) is not
  modelled; the durations of the program are far inside it.
\<close>

definition round_even :: "rat \<Rightarrow> int" where
  "round_even x =
     (let f = \<lfloor>x\<rfloor>; r = x - of_int f
      in if r < 1 / 2 then f else if 1 / 2 < r then f + 1 else if even f then f else f + 1)"

definition exponent :: "rat \<Rightarrow> int" where
  "exponent q =
     (let (n, d) = quotient_of \<bar>q\<bar>;
          s = 53 + bitlen d - bitlen n
      in if 2 ^ 53 \<le> \<bar>q\<bar> * 2 powi s then s - 1 else s)"

definition float64 :: "rat \<Rightarrow> rat" where
  "float64 q =
     (if q = 0 then 0
      else sgn q * of_int (round_even (\<bar>q\<bar> * 2 powi exponent q)) * 2 powi (- exponent q))"

subsection \<open>pandas\<close>

text \<open>
  \<^verbatim>\<open>dropna(how='all')\<close> drops the rows whose cells are all missing;
  \<^verbatim>\<open>dropna(subset=cs)\<close> drops the rows with a missing cell in one of the columns
  \<open>cs\<close>; \<^verbatim>\<open>df.empty\<close> holds when an axis has length zero.
\<close>

definition dropna_all :: "frame \<Rightarrow> frame" where
  "dropna_all df =
     df\<lparr>rows := filter (\<lambda>(i, r). list_ex (\<lambda>c. r c \<noteq> Missing) (columns df)) (rows df)\<rparr>"

definition dropna_subset :: "string list \<Rightarrow> frame \<Rightarrow> frame" where
  "dropna_subset cs df =
     df\<lparr>rows := filter (\<lambda>(i, r). list_all (\<lambda>c. r c \<noteq> Missing) cs) (rows df)\<rparr>"

definition empty :: "frame \<Rightarrow> bool" where
  "empty df = (rows df = [] \<or> columns df = [])"

text \<open>
  The \<^verbatim>\<open>.str\<close> accessor of a column raises \<^verbatim>\<open>AttributeError\<close> unless the column
  holds strings: its storage type must be \<^verbatim>\<open>object\<close>, and its values that are not
  missing must not be all numbers or all datetimes (no such value at all is accepted).
  \<^verbatim>\<open>startswith(pat, na=False)\<close> is then taken cell by cell: a string is tested, and
  a missing cell or a value that is no string gives \<^verbatim>\<open>False\<close>.
\<close>

definition is_number :: "cell \<Rightarrow> bool" where
  "is_number c = (case c of Number q \<Rightarrow> True | _ \<Rightarrow> False)"

definition is_stamp :: "cell \<Rightarrow> bool" where
  "is_stamp c = (case c of Stamp t \<Rightarrow> True | _ \<Rightarrow> False)"

definition column :: "frame \<Rightarrow> string \<Rightarrow> cell list" where
  "column df c = map (\<lambda>(i, r). r c) (rows df)"

definition str_accessor_ok :: "frame \<Rightarrow> string \<Rightarrow> bool" where
  "str_accessor_ok df c =
     (dtypes df c = Object \<and>
      (let vs = filter (\<lambda>v. v \<noteq> Missing) (column df c)
       in vs = [] \<or> (\<not> list_all is_number vs \<and> \<not> list_all is_stamp vs)))"

definition startswith :: "string \<Rightarrow> cell \<Rightarrow> bool" where
  "startswith pat c = (case c of Text s \<Rightarrow> take (length pat) s = pat | _ \<Rightarrow> False)"

text \<open>
  Comparing a datetime column with a datetime compares instants; a missing date
  compares false. The difference of two datetime columns holds elapsed times, and
  \<^verbatim>\<open>.dt.total_seconds()\<close> gives each as a \<^verbatim>\<open>float64\<close> number of seconds, the
  difference of the instants (the dates hold whole seconds). Dividing that column by 3600
  is a division of floats. The result is missing when a date is.
\<close>

definition ge_date :: "cell \<Rightarrow> datetime \<Rightarrow> bool" where
  "ge_date c t = (case c of Stamp s \<Rightarrow> timestamp s \<ge> timestamp t | _ \<Rightarrow> False)"

definition le_date :: "cell \<Rightarrow> datetime \<Rightarrow> bool" where
  "le_date c t = (case c of Stamp s \<Rightarrow> timestamp s \<le> timestamp t | _ \<Rightarrow> False)"

definition total_seconds :: "datetime \<Rightarrow> datetime \<Rightarrow> rat" where
  "total_seconds e s = float64 (of_int (timestamp e - timestamp s))"

definition hours_between :: "cell \<Rightarrow> cell \<Rightarrow> cell" where
  "hours_between e s =
     (case (e, s) of
        (Stamp t, Stamp u) \<Rightarrow> Number (float64 (total_seconds t u / 3600))
      | _ \<Rightarrow> Missing)"

section \<open>The program\<close>

subsection \<open>\<^verbatim>\<open>try_read_csv\<close>\<close>

definition encodings :: "string list" where
  "encodings = [''utf-8'', ''latin1'', ''iso-8859-1'', ''cp1252'']"

fun try_encodings :: "world \<Rightarrow> string \<Rightarrow> string list \<Rightarrow> frame run" where
  "try_encodings w file_path [] = ([], Inl (ValueError, No_encoding_worked))"
| "try_encodings w file_path (encoding # rest) =
     (case read_csv w file_path encoding of
        Inr df \<Rightarrow> ([Trying_encoding encoding, Read_ok encoding], Inr df)
      | Inl (cls, m) \<Rightarrow>
          (case try_encodings w file_path rest of
             (out, r) \<Rightarrow>
               (Trying_encoding encoding
                  # (if cls = UnicodeDecodeError then Decode_failed encoding
                     else Unexpected_failure encoding m)
                  # out, r)))"

definition try_read_csv :: "world \<Rightarrow> string \<Rightarrow> frame run" where
  "try_read_csv w file_path = try_encodings w file_path encodings"

subsection \<open>\<^verbatim>\<open>clean_and_validate_data\<close>\<close>

definition required_columns :: "string list" where
  "required_columns =
     [''Activity Number'', ''Activity'', ''Milestone/task'', ''Start Date (CET)'',
      ''End Date (CET)'', ''Responsible Person'']"

definition clean_and_validate_data :: "frame \<Rightarrow> exn + frame" where
  "clean_and_validate_data df0 =
     (let df = dropna_all df0;
          missing_columns = filter (\<lambda>col. col \<notin> set (columns df)) required_columns
      in if missing_columns \<noteq> [] then Inl (ValueError, Missing_columns missing_columns)
         else Inr df)"

subsection \<open>\<^verbatim>\<open>parse_dates\<close>\<close>

definition date_formats :: "string list" where
  "date_formats = [''%d/%m/%y %H:%M'']"

fun try_formats :: "string \<Rightarrow> string list \<Rightarrow> datetime option" where
  "try_formats s [] = None"
| "try_formats s (date_format # rest) =
     (case strptime s date_format of Inr t \<Rightarrow> Some t | Inl e \<Rightarrow> try_formats s rest)"

text \<open>
  \<^verbatim>\<open>str\<close> of a number or of a datetime has no \<^verbatim>\<open>/\<close>, so no format of \<open>date_formats\<close>
  matches it: such a cell ends at the final \<^verbatim>\<open>print\<close>, as a string that no format
  matches does.
\<close>

definition parse_dates :: "cell \<Rightarrow> event list \<times> datetime option" where
  "parse_dates date_str =
     (case date_str of
        Missing \<Rightarrow> ([], None)
      | Text s \<Rightarrow>
          (case try_formats s date_formats of
             Some t \<Rightarrow> ([], Some t)
           | None \<Rightarrow> ([Could_not_parse date_str], None))
      | _ \<Rightarrow> ([Could_not_parse date_str], None))"

subsection \<open>\<^verbatim>\<open>read_and_process_data\<close>\<close>

text \<open>
  The body of the function is given stage by stage, in the order of the source; each
  stage is the block of lines named with it.

  Reading the file (lines 129 to 136).
\<close>

definition read_table :: "world \<Rightarrow> string \<Rightarrow> frame run" where
  "read_table w file_path =
     (let file_extension = lower (snd (splitext (path_seps w) file_path))
      in if file_extension = ''.xlsx'' then quiet (read_excel w file_path ''openpyxl'')
         else if file_extension = ''.xls'' then quiet (read_excel w file_path ''xlrd'')
         else if file_extension = ''.csv'' then try_read_csv w file_path
         else quiet (Inl (ValueError, Unsupported_format file_extension)))"

text \<open>
  The two \<^verbatim>\<open>print\<close>s of the table read (lines 138 to 141): the column labels, and the
  first five rows, each with its index label and its cells.
\<close>

definition show_table :: "frame \<Rightarrow> event list" where
  "show_table df =
     [Show_columns (columns df),
      Show_head (map (\<lambda>(i, r). (i, map r (columns df))) (take 5 (rows df)))]"

text \<open>
  Converting one date column (the body of the loop, lines 148 to 153): every cell goes
  through \<open>parse_dates\<close>, whose lines are printed in row order, and the rows whose
  converted date is missing are then listed, with their activity number, in one warning.
\<close>

definition to_cell :: "datetime option \<Rightarrow> cell" where
  "to_cell d = (case d of None \<Rightarrow> Missing | Some t \<Rightarrow> Stamp t)"

definition apply_parse_dates :: "string \<Rightarrow> frame \<Rightarrow> event list \<times> frame" where
  "apply_parse_dates date_col df =
     (let parsed = map (\<lambda>(i, r). (i, r, parse_dates (r date_col))) (rows df);
          new_rows = map (\<lambda>(i, r, out, d). (i, r(date_col := to_cell d))) parsed
      in (concat (map (\<lambda>(i, r, out, d). out) parsed),
          df\<lparr>rows := new_rows,
             dtypes := (dtypes df)
               (date_col := if list_ex (\<lambda>(i, r). is_stamp (r date_col)) new_rows
                            then Datetime64 else Object)\<rparr>))"

definition invalid_dates :: "string \<Rightarrow> frame \<Rightarrow> (nat \<times> cell \<times> cell) list" where
  "invalid_dates date_col df =
     map (\<lambda>(i, r). (i, r ''Activity Number'', r date_col))
         (filter (\<lambda>(i, r). r date_col = Missing) (rows df))"

definition convert_column :: "string \<Rightarrow> frame \<Rightarrow> event list \<times> frame" where
  "convert_column date_col df0 =
     (case apply_parse_dates date_col df0 of
        (out, df) \<Rightarrow>
          ([Processing_column date_col] @ out
             @ (if invalid_dates date_col df \<noteq> []
                then [Invalid_dates_warning date_col (invalid_dates date_col df)] else []),
           df))"

fun convert_columns :: "string list \<Rightarrow> frame \<Rightarrow> event list \<times> frame" where
  "convert_columns [] df = ([], df)"
| "convert_columns (date_col # rest) df =
     (case convert_column date_col df of
        (out, df') \<Rightarrow> (case convert_columns rest df' of (out', df'') \<Rightarrow> (out @ out', df'')))"

definition date_columns :: "string list" where
  "date_columns = [''Start Date (CET)'', ''End Date (CET)'']"

text \<open>Dropping the rows with an invalid date (lines 156 to 159).\<close>

definition drop_invalid :: "frame \<Rightarrow> exn + frame" where
  "drop_invalid df0 =
     (let df = dropna_subset date_columns df0
      in if empty df then Inl (ValueError, No_valid_rows) else Inr df)"

text \<open>Keeping the tasks whose number starts with \<^verbatim>\<open>Prod\<close> (lines 162 to 165).\<close>

definition filter_prod :: "frame \<Rightarrow> exn + frame" where
  "filter_prod df0 =
     (if \<not> str_accessor_ok df0 ''Activity Number''
      then Inl (AttributeError, Str_accessor_needs_strings)
      else
        let df = df0\<lparr>rows := filter (\<lambda>(i, r). startswith ''Prod'' (r ''Activity Number''))
                                     (rows df0)\<rparr>
        in if empty df then Inl (ValueError, No_prod_rows) else Inr df)"

text \<open>Reading the two bounds of the window (lines 168 to 176).\<close>

definition parse_window :: "string \<Rightarrow> string \<Rightarrow> exn + datetime \<times> datetime" where
  "parse_window start_date_filter end_date_filter =
     (case strptime start_date_filter ''%d/%m/%Y %H:%M'' of
        Inl (cls, m) \<Rightarrow> Inl (ValueError, Bad_start_filter start_date_filter m)
      | Inr start_date \<Rightarrow>
          (case strptime end_date_filter ''%d/%m/%Y %H:%M'' of
             Inl (cls, m) \<Rightarrow> Inl (ValueError, Bad_end_filter end_date_filter m)
           | Inr end_date \<Rightarrow> Inr (start_date, end_date)))"

text \<open>Keeping the tasks inside the window (lines 179 to 185).\<close>

definition in_range :: "datetime \<Rightarrow> datetime \<Rightarrow> row \<Rightarrow> bool" where
  "in_range start_date end_date r =
     (ge_date (r ''Start Date (CET)'') start_date \<and> le_date (r ''End Date (CET)'') end_date)"

definition filter_range ::
  "string \<Rightarrow> string \<Rightarrow> datetime \<Rightarrow> datetime \<Rightarrow> frame \<Rightarrow> exn + frame" where
  "filter_range start_date_filter end_date_filter start_date end_date df0 =
     (let df = df0\<lparr>rows := filter (\<lambda>(i, r). in_range start_date end_date r) (rows df0)\<rparr>
      in if empty df then Inl (ValueError, No_rows_in_range start_date_filter end_date_filter)
         else Inr df)"

text \<open>The duration column (lines 188 to 190).\<close>

definition with_duration :: "row \<Rightarrow> row" where
  "with_duration r =
     r(''Duration (Hours)'' := hours_between (r ''End Date (CET)'') (r ''Start Date (CET)''))"

definition add_duration :: "frame \<Rightarrow> frame" where
  "add_duration df =
     df\<lparr>columns := (if ''Duration (Hours)'' \<in> set (columns df) then columns df
                     else columns df @ [''Duration (Hours)'']),
        dtypes := (dtypes df)(''Duration (Hours)'' := Float64),
        rows := map (\<lambda>(i, r). (i, with_duration r)) (rows df)\<rparr>"

text \<open>The stages after the file is read (lines 138 to 192).\<close>

definition process_table :: "frame \<Rightarrow> string \<Rightarrow> string \<Rightarrow> frame run" where
  "process_table df0 start_date_filter end_date_filter =
     then_run (show_table df0, Inr ()) (\<lambda>u.
     then_run (quiet (clean_and_validate_data df0)) (\<lambda>df1.
     then_run (case convert_columns date_columns df1 of (out, df2) \<Rightarrow> (out, Inr df2)) (\<lambda>df2.
     then_run (quiet (drop_invalid df2)) (\<lambda>df3.
     then_run (quiet (filter_prod df3)) (\<lambda>df4.
     then_run (quiet (parse_window start_date_filter end_date_filter)) (\<lambda>(start_date, end_date).
     then_run (quiet (filter_range start_date_filter end_date_filter start_date end_date df4))
       (\<lambda>df5.
     quiet (Inr (add_duration df5)))))))))"

text \<open>The \<^verbatim>\<open>try\<close> block (lines 127 to 192).\<close>

definition try_block :: "world \<Rightarrow> string \<Rightarrow> string \<Rightarrow> string \<Rightarrow> frame run" where
  "try_block w file_path start_date_filter end_date_filter =
     then_run (read_table w file_path)
       (\<lambda>df. process_table df start_date_filter end_date_filter)"

text \<open>
  The function: the existence check comes before the \<^verbatim>\<open>try\<close>, and the handler of the
  \<^verbatim>\<open>try\<close> raises a plain \<^verbatim>\<open>Exception\<close> whose message holds the message of what it
  caught.
\<close>

definition read_and_process_data ::
  "world \<Rightarrow> string \<Rightarrow> string \<Rightarrow> string \<Rightarrow> frame run" where
  "read_and_process_data w file_path start_date_filter end_date_filter =
     (if \<not> path_exists w file_path
      then ([], Inl (FileNotFoundError, File_missing file_path))
      else
        (case try_block w file_path start_date_filter end_date_filter of
           (out, Inl (cls, m)) \<Rightarrow> (out, Inl (Exception, Error_processing m))
         | (out, Inr df) \<Rightarrow> (out, Inr df)))"

section \<open>Observations\<close>

text \<open>
  Functions in which the properties are stated. They read the output and the rows of the
  program; the program does not call them.
\<close>

text \<open>The encodings a run of \<open>try_read_csv\<close> announced, in the order of its output.\<close>

definition attempted :: "event list \<Rightarrow> string list" where
  "attempted out = concat (map (\<lambda>e. case e of Trying_encoding enc \<Rightarrow> [enc] | _ \<Rightarrow> []) out)"

text \<open>
  What the two conversions together do to a row, and the condition under which a row of
  the table read is still there when the duration is computed: the conjunction of what
  the four row filters test, each on the row as it is when the filter runs.
\<close>

definition normalized :: "row \<Rightarrow> row" where
  "normalized r =
     r(''Start Date (CET)'' := to_cell (snd (parse_dates (r ''Start Date (CET)''))),
       ''End Date (CET)'' := to_cell (snd (parse_dates (r ''End Date (CET)''))))"

definition survives :: "string list \<Rightarrow> datetime \<Rightarrow> datetime \<Rightarrow> row \<Rightarrow> bool" where
  "survives cols a b r =
     (list_ex (\<lambda>c. r c \<noteq> Missing) cols
      \<and> list_all (\<lambda>c. normalized r c \<noteq> Missing) date_columns
      \<and> startswith ''Prod'' (r ''Activity Number'')
      \<and> in_range a b (normalized r))"

text \<open>A task that ends before it starts.\<close>

definition runs_backward :: "row \<Rightarrow> bool" where
  "runs_backward r =
     (case (r ''Start Date (CET)'', r ''End Date (CET)'') of
        (Stamp s, Stamp e) \<Rightarrow> timestamp e < timestamp s
      | _ \<Rightarrow> False)"

section \<open>Example inputs\<close>

text \<open>
  A task row with text in every required column, and a disk on which no path exists.
\<close>

definition no_row :: row where
  "no_row = (\<lambda>c. Missing)"

definition task :: "string \<Rightarrow> string \<Rightarrow> string \<Rightarrow> row" where
  "task number start_text end_text =
     no_row(''Activity Number'' := Text number, ''Activity'' := Text ''Deploy'',
            ''Milestone/task'' := Text ''Release'', ''Start Date (CET)'' := Text start_text,
            ''End Date (CET)'' := Text end_text, ''Responsible Person'' := Text ''Ana'')"

definition no_reader :: "string \<Rightarrow> string \<Rightarrow> exn + frame" where
  "no_reader p e = Inl (LibraryError, Library_message ''cannot read'')"

definition empty_disk :: world where
  "empty_disk = \<lparr>path_exists = (\<lambda>p. False), path_seps = ''/'',
                  read_excel = no_reader, read_csv = no_reader\<rparr>"

text \<open>
  Two tables that lack the columns \<^verbatim>\<open>Activity\<close> and \<^verbatim>\<open>Responsible Person\<close>; the
  second has its columns in another order and one column more.
\<close>

definition plan_two_missing :: frame where
  "plan_two_missing =
     \<lparr>columns = [''Activity Number'', ''Milestone/task'', ''Start Date (CET)'',
                 ''End Date (CET)''],
      dtypes = (\<lambda>c. Object),
      rows = [(0, task ''Prod1'' ''08/11/24 17:00'' ''08/11/24 18:00'')]\<rparr>"

definition plan_two_missing_shuffled :: frame where
  "plan_two_missing_shuffled =
     \<lparr>columns = [''Notes'', ''End Date (CET)'', ''Start Date (CET)'', ''Milestone/task'',
                 ''Activity Number''],
      dtypes = (\<lambda>c. Object),
      rows = [(0, task ''Prod1'' ''08/11/24 17:00'' ''08/11/24 18:00'')]\<rparr>"

text \<open>A disk whose only file, \<^verbatim>\<open>plan.csv\<close>, is not valid UTF-8 and reads as Latin-1.\<close>

definition latin_plan :: frame where
  "latin_plan = \<lparr>columns = required_columns, dtypes = (\<lambda>c. Object),
                  rows = [(0, task ''Prod1'' ''08/11/24 17:00'' ''08/11/24 18:00'')]\<rparr>"

definition latin_disk :: world where
  "latin_disk =
     \<lparr>path_exists = (\<lambda>p. p = ''plan.csv''), path_seps = ''/'', read_excel = no_reader,
      read_csv = (\<lambda>p enc. if enc = ''utf-8''
                           then Inl (UnicodeDecodeError, Library_message ''invalid start byte'')
                           else Inr latin_plan)\<rparr>"

text \<open>
  Datetimes by their fields, a task row whose dates are already datetimes, and a table
  with a task on the bounds of the window from Friday 17:00 to Sunday 23:59 and a task
  that ends one second later.
\<close>

definition moment :: "nat \<Rightarrow> nat \<Rightarrow> nat \<Rightarrow> nat \<Rightarrow> nat \<Rightarrow> nat \<Rightarrow> datetime" where
  "moment y m d h mi s = \<lparr>year = y, month = m, day = d, hour = h, minute = mi, second = s\<rparr>"

definition dated :: "string \<Rightarrow> datetime \<Rightarrow> datetime \<Rightarrow> row" where
  "dated number s e =
     (task number [] [])(''Start Date (CET)'' := Stamp s, ''End Date (CET)'' := Stamp e)"

definition friday_5pm :: datetime where "friday_5pm = moment 2024 11 8 17 0 0"
definition sunday_night :: datetime where "sunday_night = moment 2024 11 10 23 59 0"
definition sunday_night_late :: datetime where "sunday_night_late = moment 2024 11 10 23 59 1"

definition window_plan :: frame where
  "window_plan =
     \<lparr>columns = required_columns,
      dtypes = (\<lambda>c. if c \<in> set date_columns then Datetime64 else Object),
      rows = [(0, dated ''Prod1'' friday_5pm sunday_night),
              (1, dated ''Prod2'' friday_5pm sunday_night_late)]\<rparr>"

text \<open>
  A file with one task, whose end is two days before its start; and a file with seven
  rows: two tasks inside the week-end, one with a start that is no date, one whose
  number is in lower case, an empty row, one after the week-end, one without a start.
\<close>

definition backward_plan :: frame where
  "backward_plan = \<lparr>columns = required_columns, dtypes = (\<lambda>c. Object),
      rows = [(0, task ''Prod1'' ''10/11/24 00:00'' ''08/11/24 00:00'')]\<rparr>"

definition backward_disk :: world where
  "backward_disk =
     \<lparr>path_exists = (\<lambda>p. p = ''plan.csv''), path_seps = ''/'', read_excel = no_reader,
      read_csv = (\<lambda>p enc. Inr backward_plan)\<rparr>"

definition weekend_plan :: frame where
  "weekend_plan =
     \<lparr>columns = required_columns, dtypes = (\<lambda>c. Object),
      rows = [(0, task ''Prod1'' ''08/11/24 10:00'' ''08/11/24 12:30''),
              (1, task ''Prod2'' ''tomorrow'' ''09/11/24 10:00''),
              (2, task ''prod3'' ''09/11/24 08:00'' ''09/11/24 09:00''),
              (3, no_row),
              (4, task ''Prod4'' ''09/11/24 22:00'' ''10/11/24 23:59''),
              (5, task ''Prod5'' ''12/11/24 10:00'' ''12/11/24 12:30''),
              (6, (task ''Prod6'' [] ''09/11/24 10:00'')(''Start Date (CET)'' := Missing))]\<rparr>"

definition weekend_disk :: world where
  "weekend_disk =
     \<lparr>path_exists = (\<lambda>p. p = ''plan.csv''), path_seps = ''/'', read_excel = no_reader,
      read_csv = (\<lambda>p enc. Inr weekend_plan)\<rparr>"

text \<open>
  A table whose numbers are \<^verbatim>\<open>ProdX\<close>, \<^verbatim>\<open>prodX\<close> and a missing one; and a file
  whose number column is empty in every row, which the reader stores as a column of
  floats.
\<close>

definition prefix_plan :: frame where
  "prefix_plan =
     \<lparr>columns = required_columns, dtypes = (\<lambda>c. Object),
      rows = [(0, dated ''ProdX'' friday_5pm sunday_night),
              (1, dated ''prodX'' friday_5pm sunday_night),
              (2, (dated [] friday_5pm sunday_night)(''Activity Number'' := Missing))]\<rparr>"

definition unnumbered_plan :: frame where
  "unnumbered_plan =
     \<lparr>columns = required_columns,
      dtypes = (\<lambda>c. if c = ''Activity Number'' then Float64 else Object),
      rows = [(0, (task [] ''08/11/24 10:00'' ''08/11/24 12:30'')
                    (''Activity Number'' := Missing))]\<rparr>"

definition unnumbered_disk :: world where
  "unnumbered_disk =
     \<lparr>path_exists = (\<lambda>p. p = ''plan.csv''), path_seps = ''/'', read_excel = no_reader,
      read_csv = (\<lambda>p enc. Inr unnumbered_plan)\<rparr>"

text \<open>
  A table with a start that is no date and a start that is missing; a table whose only
  start is missing; and a disk where every path exists and every CSV file is the table
  that lacks two columns.
\<close>

definition gaps_plan :: frame where
  "gaps_plan =
     \<lparr>columns = required_columns, dtypes = (\<lambda>c. Object),
      rows = [(0, task ''Prod1'' ''tomorrow'' ''09/11/24 10:00''),
              (1, (task ''Prod2'' [] ''09/11/24 10:00'')(''Start Date (CET)'' := Missing))]\<rparr>"

definition blank_start_plan :: frame where
  "blank_start_plan =
     \<lparr>columns = required_columns, dtypes = (\<lambda>c. Object),
      rows = [(0, (task ''Prod6'' [] ''09/11/24 10:00'')(''Start Date (CET)'' := Missing))]\<rparr>"

definition loose_disk :: world where
  "loose_disk =
     \<lparr>path_exists = (\<lambda>p. True), path_seps = ''/'', read_excel = no_reader,
      read_csv = (\<lambda>p enc. Inr plan_two_missing)\<rparr>"

section \<open>Properties\<close>

subsection \<open>Sequencing\<close>

lemma snd_then_run:
  "snd (then_run m f) = (case snd m of Inl e \<Rightarrow> Inl e | Inr x \<Rightarrow> snd (f x))"
  by (simp add: then_run_def split: prod.splits sum.splits)

subsection \<open>The existence check\<close>

text \<open>
  C10. When the path does not exist, \<open>read_and_process_data\<close> raises
  \<^verbatim>\<open>FileNotFoundError\<close> for that path and has printed nothing: the check comes before
  the extension is looked at and before any reader runs, whatever the extension is.
\<close>

theorem missing_path_raises_first:
  "\<not> path_exists w file_path \<Longrightarrow>
     read_and_process_data w file_path start_date_filter end_date_filter
       = ([], Inl (FileNotFoundError, File_missing file_path))"
  by (simp add: read_and_process_data_def)

text \<open>
  On the empty disk the path \<^verbatim>\<open>plan.txt\<close>, whose extension no reader supports, gives
  \<^verbatim>\<open>FileNotFoundError\<close>; the dispatch alone would have rejected the extension.
\<close>

theorem missing_path_raises_first_witness:
  "\<not> path_exists empty_disk ''plan.txt''
   \<and> read_and_process_data empty_disk ''plan.txt'' ''08/11/2024 17:00'' ''10/11/2024 23:59''
       = ([], Inl (FileNotFoundError, File_missing ''plan.txt''))
   \<and> snd (read_table empty_disk ''plan.txt'') = Inl (ValueError, Unsupported_format ''.txt'')"
proof -
  have h: "\<not> path_exists empty_disk ''plan.txt''"
    by (simp add: empty_disk_def)
  have u: "snd (read_table empty_disk ''plan.txt'')
             = Inl (ValueError, Unsupported_format ''.txt'')"
    by (simp add: read_table_def splitext_def lower_def quiet_def empty_disk_def)
  show ?thesis
    using h u missing_path_raises_first [OF h] by simp
qed

subsection \<open>Schema validation\<close>

lemma columns_dropna_all: "columns (dropna_all df) = columns df"
  by (simp add: dropna_all_def)

lemma missing_nil_iff:
  "filter (\<lambda>col. col \<notin> set cs) required_columns = [] \<longleftrightarrow> set required_columns \<subseteq> set cs"
  by (auto simp: filter_empty_conv)

lemma missing_cong:
  "set cs' \<inter> set required_columns = set cs \<inter> set required_columns \<Longrightarrow>
   filter (\<lambda>col. col \<notin> set cs') required_columns = filter (\<lambda>col. col \<notin> set cs) required_columns"
  by (rule filter_cong) auto

text \<open>
  C6. \<open>clean_and_validate_data\<close> raises exactly when a required column is absent from
  the table, and the message then lists every absent required column, in the order of
  \<open>required_columns\<close>; otherwise it returns the table without its empty rows. Two tables
  with the same required columns present, whatever their other columns and the order of
  their columns, have the same outcome: both pass, or both raise the same error.
\<close>

theorem schema_error_lists_all_missing:
  "clean_and_validate_data df =
     (if set required_columns \<subseteq> set (columns df) then Inr (dropna_all df)
      else Inl (ValueError,
                Missing_columns (filter (\<lambda>col. col \<notin> set (columns df)) required_columns)))
   \<and> (set (columns df') \<inter> set required_columns = set (columns df) \<inter> set required_columns \<longrightarrow>
        isl (clean_and_validate_data df') = isl (clean_and_validate_data df)
        \<and> (\<forall>e. clean_and_validate_data df' = Inl e \<longleftrightarrow> clean_and_validate_data df = Inl e))"
proof -
  have 1: "\<And>d. clean_and_validate_data d =
     (if set required_columns \<subseteq> set (columns d) then Inr (dropna_all d)
      else Inl (ValueError,
                Missing_columns (filter (\<lambda>col. col \<notin> set (columns d)) required_columns)))"
    using missing_nil_iff by (simp add: clean_and_validate_data_def columns_dropna_all Let_def)
  have 2: "isl (clean_and_validate_data df') = isl (clean_and_validate_data df)
        \<and> (\<forall>e. clean_and_validate_data df' = Inl e \<longleftrightarrow> clean_and_validate_data df = Inl e)"
    if h: "set (columns df') \<inter> set required_columns = set (columns df) \<inter> set required_columns"
  proof -
    have a: "filter (\<lambda>col. col \<notin> set (columns df')) required_columns
           = filter (\<lambda>col. col \<notin> set (columns df)) required_columns"
      using h by (rule missing_cong)
    have b: "set required_columns \<subseteq> set (columns df') \<longleftrightarrow> set required_columns \<subseteq> set (columns df)"
      using a missing_nil_iff by metis
    show ?thesis by (simp add: 1 a b)
  qed
  show ?thesis using 1 2 by blast
qed

text \<open>
  A table without \<^verbatim>\<open>Activity\<close> and \<^verbatim>\<open>Responsible Person\<close> is reported with both
  names, and so is the table with the columns shuffled and a column added.
\<close>

theorem schema_error_lists_all_missing_witness:
  "clean_and_validate_data plan_two_missing
     = Inl (ValueError, Missing_columns [''Activity'', ''Responsible Person''])
   \<and> clean_and_validate_data plan_two_missing_shuffled
     = Inl (ValueError, Missing_columns [''Activity'', ''Responsible Person''])"
proof -
  have s: "set (columns plan_two_missing_shuffled) \<inter> set required_columns
         = set (columns plan_two_missing) \<inter> set required_columns"
    by (auto simp: plan_two_missing_def plan_two_missing_shuffled_def required_columns_def)
  have m: "clean_and_validate_data plan_two_missing
     = Inl (ValueError, Missing_columns [''Activity'', ''Responsible Person''])"
    using schema_error_lists_all_missing [of plan_two_missing plan_two_missing]
    by (simp add: plan_two_missing_def required_columns_def)
  show ?thesis
    using s m schema_error_lists_all_missing [of plan_two_missing plan_two_missing_shuffled]
    by simp
qed

subsection \<open>The encoding fallback\<close>

lemma try_encodings_result:
  "snd (try_encodings w p encs) =
     (case find (\<lambda>enc. \<not> isl (read_csv w p enc)) encs of
        None \<Rightarrow> Inl (ValueError, No_encoding_worked)
      | Some enc \<Rightarrow> read_csv w p enc)"
  by (induction encs) (auto split: sum.splits prod.splits)

lemma try_encodings_attempted:
  "attempted (fst (try_encodings w p encs)) =
     (case find (\<lambda>enc. \<not> isl (read_csv w p enc)) encs of
        None \<Rightarrow> encs
      | Some enc \<Rightarrow> takeWhile (\<lambda>e. isl (read_csv w p e)) encs @ [enc])"
  by (induction encs) (auto simp: attempted_def split: sum.splits prod.splits option.splits)

lemma try_encodings_fails:
  "isl (snd (try_encodings w p encs)) = list_all (\<lambda>enc. isl (read_csv w p enc)) encs"
  by (induction encs) (auto split: sum.splits prod.splits)

text \<open>
  C7. \<open>try_read_csv\<close> tries the encodings in the order UTF-8, Latin-1, ISO-8859-1,
  Windows-1252: the encodings it announces are those that fail before the first one that
  reads the file, then that one, and it returns the table that one produced; it raises
  (no encoding worked) exactly when all four fail, having announced all four. It is a
  function of the reader's answers, so the same file gives the same outcome.
\<close>

theorem try_read_csv_first_success:
  "encodings = [''utf-8'', ''latin1'', ''iso-8859-1'', ''cp1252'']
   \<and> (case find (\<lambda>enc. \<not> isl (read_csv w file_path enc)) encodings of
        None \<Rightarrow>
          snd (try_read_csv w file_path) = Inl (ValueError, No_encoding_worked)
          \<and> attempted (fst (try_read_csv w file_path)) = encodings
      | Some enc \<Rightarrow>
          snd (try_read_csv w file_path) = read_csv w file_path enc
          \<and> attempted (fst (try_read_csv w file_path))
              = takeWhile (\<lambda>e. isl (read_csv w file_path e)) encodings @ [enc])
   \<and> isl (snd (try_read_csv w file_path))
       = list_all (\<lambda>enc. isl (read_csv w file_path enc)) encodings"
proof -
  have order: "encodings = [''utf-8'', ''latin1'', ''iso-8859-1'', ''cp1252'']"
    by (simp add: encodings_def)
  have outcome:
    "(case find (\<lambda>enc. \<not> isl (read_csv w file_path enc)) encodings of
        None \<Rightarrow>
          snd (try_read_csv w file_path) = Inl (ValueError, No_encoding_worked)
          \<and> attempted (fst (try_read_csv w file_path)) = encodings
      | Some enc \<Rightarrow>
          snd (try_read_csv w file_path) = read_csv w file_path enc
          \<and> attempted (fst (try_read_csv w file_path))
              = takeWhile (\<lambda>e. isl (read_csv w file_path e)) encodings @ [enc])"
    unfolding try_read_csv_def
    by (simp add: try_encodings_result try_encodings_attempted split: option.splits)
  have fails: "isl (snd (try_read_csv w file_path))
       = list_all (\<lambda>enc. isl (read_csv w file_path enc)) encodings"
    unfolding try_read_csv_def by (rule try_encodings_fails)
  show ?thesis
    using order outcome fails by blast
qed

text \<open>
  The file that is not valid UTF-8 is read with the second encoding after two attempts;
  where no reader succeeds, four attempts are made and the call raises.
\<close>

theorem try_read_csv_first_success_witness:
  "snd (try_read_csv latin_disk ''plan.csv'') = Inr latin_plan
   \<and> attempted (fst (try_read_csv latin_disk ''plan.csv'')) = [''utf-8'', ''latin1'']
   \<and> snd (try_read_csv empty_disk ''plan.csv'') = Inl (ValueError, No_encoding_worked)
   \<and> attempted (fst (try_read_csv empty_disk ''plan.csv''))
       = [''utf-8'', ''latin1'', ''iso-8859-1'', ''cp1252'']"
proof -
  have latin: "\<And>enc. read_csv latin_disk ''plan.csv'' enc
      = (if enc = ''utf-8'' then Inl (UnicodeDecodeError, Library_message ''invalid start byte'')
         else Inr latin_plan)"
    by (simp add: latin_disk_def)
  have none: "\<And>enc. read_csv empty_disk ''plan.csv'' enc
      = Inl (LibraryError, Library_message ''cannot read'')"
    by (simp add: empty_disk_def no_reader_def)
  have a: "snd (try_read_csv latin_disk ''plan.csv'') = Inr latin_plan
   \<and> attempted (fst (try_read_csv latin_disk ''plan.csv'')) = [''utf-8'', ''latin1'']"
    using try_read_csv_first_success [of latin_disk "''plan.csv''"]
    by (simp add: latin encodings_def)
  have b: "snd (try_read_csv empty_disk ''plan.csv'') = Inl (ValueError, No_encoding_worked)
   \<and> attempted (fst (try_read_csv empty_disk ''plan.csv''))
       = [''utf-8'', ''latin1'', ''iso-8859-1'', ''cp1252'']"
    using try_read_csv_first_success [of empty_disk "''plan.csv''"]
    by (simp add: none encodings_def)
  show ?thesis using a b by simp
qed

subsection \<open>The stages, row by row\<close>

lemma rows_apply_parse_dates:
  "rows (snd (apply_parse_dates c df))
     = map (\<lambda>(i, r). (i, r(c := to_cell (snd (parse_dates (r c)))))) (rows df)"
  by (simp add: apply_parse_dates_def Let_def case_prod_unfold comp_def)

lemma columns_apply_parse_dates: "columns (snd (apply_parse_dates c df)) = columns df"
  by (simp add: apply_parse_dates_def Let_def)

lemma snd_convert_column: "snd (convert_column c df) = snd (apply_parse_dates c df)"
  by (simp add: convert_column_def split: prod.splits)

lemma snd_convert_columns_Cons:
  "snd (convert_columns (c # cs) df) = snd (convert_columns cs (snd (convert_column c df)))"
  by (simp split: prod.splits)

lemma rows_convert_columns:
  "rows (snd (convert_columns date_columns df)) = map (\<lambda>(i, r). (i, normalized r)) (rows df)"
  unfolding date_columns_def snd_convert_columns_Cons
  by (simp add: snd_convert_column rows_apply_parse_dates normalized_def
        case_prod_unfold comp_def)

lemma columns_convert_columns:
  "columns (snd (convert_columns date_columns df)) = columns df"
  unfolding date_columns_def snd_convert_columns_Cons
  by (simp add: snd_convert_column columns_apply_parse_dates)

lemma process_table_success:
  assumes "snd (process_table df0 sf ef) = Inr df"
  obtains df1 df3 df4 a b df5 where
    "clean_and_validate_data df0 = Inr df1"
    "drop_invalid (snd (convert_columns date_columns df1)) = Inr df3"
    "filter_prod df3 = Inr df4"
    "parse_window sf ef = Inr (a, b)"
    "filter_range sf ef a b df4 = Inr df5"
    "df = add_duration df5"
  using assms
  by (auto simp: process_table_def snd_then_run quiet_def split: sum.splits prod.splits)

lemma snd_read_and_process_data:
  "snd (read_and_process_data w p sf ef) =
     (if \<not> path_exists w p then Inl (FileNotFoundError, File_missing p)
      else (case snd (try_block w p sf ef) of
              Inl (cls, m) \<Rightarrow> Inl (Exception, Error_processing m)
            | Inr df \<Rightarrow> Inr df))"
  by (simp add: read_and_process_data_def split: prod.splits sum.splits)

lemma snd_try_block:
  "snd (try_block w p sf ef) =
     (case snd (read_table w p) of Inl e \<Rightarrow> Inl e | Inr df0 \<Rightarrow> snd (process_table df0 sf ef))"
  by (simp add: try_block_def snd_then_run)

lemma read_and_process_data_success:
  assumes "snd (read_and_process_data w p sf ef) = Inr df"
  obtains df0 where "path_exists w p" "snd (read_table w p) = Inr df0"
    "snd (process_table df0 sf ef) = Inr df"
  using assms
  by (auto simp: snd_read_and_process_data snd_try_block split: sum.splits prod.splits if_splits)

lemma snd_process_table:
  "snd (process_table df0 sf ef) =
     (case clean_and_validate_data df0 of Inl e \<Rightarrow> Inl e | Inr df1 \<Rightarrow>
      (case drop_invalid (snd (convert_columns date_columns df1)) of Inl e \<Rightarrow> Inl e | Inr df3 \<Rightarrow>
      (case filter_prod df3 of Inl e \<Rightarrow> Inl e | Inr df4 \<Rightarrow>
      (case parse_window sf ef of Inl e \<Rightarrow> Inl e | Inr (a, b) \<Rightarrow>
      (case filter_range sf ef a b df4 of Inl e \<Rightarrow> Inl e | Inr df5 \<Rightarrow>
         Inr (add_duration df5))))))"
  by (auto simp: process_table_def snd_then_run quiet_def split: sum.splits prod.splits)

lemma dtypes_convert_columns:
  "dtypes (snd (convert_columns date_columns df)) ''Activity Number'' = dtypes df ''Activity Number''"
  unfolding date_columns_def snd_convert_columns_Cons
  by (simp add: snd_convert_column apply_parse_dates_def Let_def)

lemma normalized_number: "normalized r ''Activity Number'' = r ''Activity Number''"
  by (simp add: normalized_def)

lemma clean_and_validate_data_rows:
  "clean_and_validate_data df0 = Inr df1 \<Longrightarrow>
     rows df1 = filter (\<lambda>(i, r). list_ex (\<lambda>c. r c \<noteq> Missing) (columns df0)) (rows df0)"
  by (auto simp: clean_and_validate_data_def dropna_all_def Let_def split: if_splits)

lemma drop_invalid_rows:
  "drop_invalid d = Inr df3 \<Longrightarrow>
     rows df3 = filter (\<lambda>(i, r). list_all (\<lambda>c. r c \<noteq> Missing) date_columns) (rows d)"
  by (auto simp: drop_invalid_def dropna_subset_def Let_def split: if_splits)

lemma filter_prod_rows:
  "filter_prod df3 = Inr df4 \<Longrightarrow>
     rows df4 = filter (\<lambda>(i, r). startswith ''Prod'' (r ''Activity Number'')) (rows df3)"
  by (auto simp: filter_prod_def Let_def split: if_splits)

lemma filter_range_rows:
  "filter_range sf ef a b df4 = Inr df5 \<Longrightarrow>
     rows df5 = filter (\<lambda>(i, r). in_range a b r) (rows df4)"
  by (auto simp: filter_range_def Let_def split: if_splits)

lemma rows_add_duration:
  "rows (add_duration df5) = map (\<lambda>(i, r). (i, with_duration r)) (rows df5)"
  by (simp add: add_duration_def)

lemma filter_map_rows:
  "filter Q (map (\<lambda>(i, r). (i, f r)) xs)
     = map (\<lambda>(i, r). (i, f r)) (filter (\<lambda>(i, r). Q (i, f r)) xs)"
  by (induction xs) auto

lemma process_table_rows:
  assumes "snd (process_table df0 sf ef) = Inr df"
  shows "\<exists>kept. subseq kept (rows df0)
           \<and> rows df = map (\<lambda>(i, r). (i, with_duration (normalized r))) kept
           \<and> list_all (\<lambda>(i, r). list_all (\<lambda>c. normalized r c \<noteq> Missing) date_columns) kept"
proof -
  from assms obtain df1 df3 df4 a b df5 where
    s1: "clean_and_validate_data df0 = Inr df1" and
    s3: "drop_invalid (snd (convert_columns date_columns df1)) = Inr df3" and
    s4: "filter_prod df3 = Inr df4" and
    s5: "filter_range sf ef a b df4 = Inr df5" and
    s6: "df = add_duration df5"
    by (rule process_table_success)
  define k1 where "k1 = filter (\<lambda>(i, r). list_ex (\<lambda>c. r c \<noteq> Missing) (columns df0)) (rows df0)"
  define k3 where
    "k3 = filter (\<lambda>(i, r). list_all (\<lambda>c. normalized r c \<noteq> Missing) date_columns) k1"
  define k4 where
    "k4 = filter (\<lambda>(i, r). startswith ''Prod'' (normalized r ''Activity Number'')) k3"
  define k5 where "k5 = filter (\<lambda>(i, r). in_range a b (normalized r)) k4"
  have r1: "rows df1 = k1"
    using clean_and_validate_data_rows [OF s1] by (simp add: k1_def)
  have r3: "rows df3 = map (\<lambda>(i, r). (i, normalized r)) k3"
    using drop_invalid_rows [OF s3]
    by (simp add: rows_convert_columns r1 filter_map_rows k3_def)
  have r4: "rows df4 = map (\<lambda>(i, r). (i, normalized r)) k4"
    using filter_prod_rows [OF s4] by (simp add: r3 filter_map_rows k4_def)
  have r5: "rows df5 = map (\<lambda>(i, r). (i, normalized r)) k5"
    using filter_range_rows [OF s5] by (simp add: r4 filter_map_rows k5_def)
  have r6: "rows df = map (\<lambda>(i, r). (i, with_duration (normalized r))) k5"
    by (simp add: s6 rows_add_duration r5 case_prod_unfold comp_def)
  have "subseq k1 (rows df0)"
    unfolding k1_def by (rule subseq_filter_left)
  moreover have "subseq k3 k1"
    unfolding k3_def by (rule subseq_filter_left)
  moreover have "subseq k4 k3"
    unfolding k4_def by (rule subseq_filter_left)
  moreover have "subseq k5 k4"
    unfolding k5_def by (rule subseq_filter_left)
  ultimately have sub: "subseq k5 (rows df0)"
    using subseq_order.order_trans by blast
  have "set k5 \<subseteq> set k4"
    unfolding k5_def by (rule filter_is_subset)
  moreover have "set k4 \<subseteq> set k3"
    unfolding k4_def by (rule filter_is_subset)
  ultimately have "set k5 \<subseteq> set k3"
    by blast
  then have dates: "list_all (\<lambda>(i, r). list_all (\<lambda>c. normalized r c \<noteq> Missing) date_columns) k5"
    unfolding list_all_iff by (auto simp: k3_def list_all_iff)
  show ?thesis using sub r6 dates by blast
qed

lemma normalized_dates:
  "list_all (\<lambda>c. normalized r c \<noteq> Missing) date_columns \<Longrightarrow>
     \<exists>s e. normalized r ''Start Date (CET)'' = Stamp s \<and> normalized r ''End Date (CET)'' = Stamp e"
  by (auto simp: normalized_def date_columns_def to_cell_def split: option.splits)


lemma untouched_columns:
  "c \<noteq> ''Start Date (CET)'' \<Longrightarrow> c \<noteq> ''End Date (CET)'' \<Longrightarrow> c \<noteq> ''Duration (Hours)'' \<Longrightarrow>
     with_duration (normalized r) c = r c"
  by (simp add: with_duration_def normalized_def)

lemma process_table_succeeds:
  assumes cols: "set required_columns \<subseteq> set (columns df0)"
    and obj: "dtypes df0 ''Activity Number'' = Object"
    and win: "parse_window sf ef = Inr (a, b)"
    and some: "filter (\<lambda>(i, r). survives (columns df0) a b r) (rows df0) \<noteq> []"
  shows "\<not> isl (snd (process_table df0 sf ef))
    \<and> rows (projr (snd (process_table df0 sf ef)))
        = map (\<lambda>(i, r). (i, with_duration (normalized r)))
              (filter (\<lambda>(i, r). survives (columns df0) a b r) (rows df0))"
proof -
  define k1 where "k1 = filter (\<lambda>(i, r). list_ex (\<lambda>c. r c \<noteq> Missing) (columns df0)) (rows df0)"
  define k3 where
    "k3 = filter (\<lambda>(i, r). list_all (\<lambda>c. normalized r c \<noteq> Missing) date_columns) k1"
  define k4 where
    "k4 = filter (\<lambda>(i, r). startswith ''Prod'' (r ''Activity Number'')) k3"
  define k5 where "k5 = filter (\<lambda>(i, r). in_range a b (normalized r)) k4"
  have k5: "k5 = filter (\<lambda>(i, r). survives (columns df0) a b r) (rows df0)"
    unfolding k5_def k4_def k3_def k1_def
    by (simp add: survives_def case_prod_unfold conj_ac cong: filter_cong)
  have ne: "k5 \<noteq> []" using some k5 by simp
  then have ne4: "k4 \<noteq> []"
    unfolding k5_def by (cases k4) auto
  then have ne3: "k3 \<noteq> []"
    unfolding k4_def by (cases k3) auto
  have c0: "columns df0 \<noteq> []"
    using cols by (auto simp: required_columns_def)
  define df1 where "df1 = dropna_all df0"
  have s1: "clean_and_validate_data df0 = Inr df1"
    using cols by (simp add: clean_and_validate_data_def Let_def df1_def columns_dropna_all
        filter_empty_conv subset_iff)
  have r1: "rows df1 = k1" and c1: "columns df1 = columns df0"
    and d1: "dtypes df1 ''Activity Number'' = Object"
    using obj by (simp_all add: df1_def dropna_all_def k1_def)
  define df3 where "df3 = dropna_subset date_columns (snd (convert_columns date_columns df1))"
  have r3: "rows df3 = map (\<lambda>(i, r). (i, normalized r)) k3"
    by (simp add: df3_def dropna_subset_def rows_convert_columns r1 filter_map_rows k3_def)
  have c3: "columns df3 = columns df0"
    by (simp add: df3_def dropna_subset_def columns_convert_columns c1)
  have d3: "dtypes df3 ''Activity Number'' = Object"
    by (simp add: df3_def dropna_subset_def dtypes_convert_columns d1)
  have s3: "drop_invalid (snd (convert_columns date_columns df1)) = Inr df3"
    using ne3 c0 r3 c3 by (simp add: drop_invalid_def Let_def empty_def df3_def [symmetric])
  define df4 where
    "df4 = df3\<lparr>rows := filter (\<lambda>(i, r). startswith ''Prod'' (r ''Activity Number'')) (rows df3)\<rparr>"
  have r4: "rows df4 = map (\<lambda>(i, r). (i, normalized r)) k4"
    by (simp add: df4_def r3 filter_map_rows k4_def normalized_number)
  from ne4 obtain i r where m4: "(i, r) \<in> set k4"
    by (cases k4) auto
  then have m3: "(i, r) \<in> set k3" and pfx: "startswith ''Prod'' (r ''Activity Number'')"
    by (auto simp: k4_def)
  from pfx obtain s where idt: "r ''Activity Number'' = Text s"
    by (auto simp: startswith_def split: cell.splits)
  have incol: "Text s \<in> set (column df3 ''Activity Number'')"
    using m3 idt by (force simp: column_def r3 normalized_number)
  have acc: "str_accessor_ok df3 ''Activity Number''"
    using incol d3
    by (auto simp: str_accessor_ok_def Let_def list_all_iff is_number_def is_stamp_def)
  have s4: "filter_prod df3 = Inr df4"
    using acc ne4 c0 r4 c3
    by (simp add: filter_prod_def Let_def empty_def df4_def [symmetric]) (simp add: df4_def)
  define df5 where "df5 = df4\<lparr>rows := filter (\<lambda>(i, r). in_range a b r) (rows df4)\<rparr>"
  have r5: "rows df5 = map (\<lambda>(i, r). (i, normalized r)) k5"
    by (simp add: df5_def r4 filter_map_rows k5_def)
  have c5: "columns df5 = columns df0"
    by (simp add: df5_def df4_def c3)
  have s5: "filter_range sf ef a b df4 = Inr df5"
    using ne c0 r5 c5
    by (simp add: filter_range_def Let_def empty_def df5_def [symmetric])
  have res: "snd (process_table df0 sf ef) = Inr (add_duration df5)"
    by (simp add: snd_process_table s1 s3 s4 win s5)
  have "rows (add_duration df5) = map (\<lambda>(i, r). (i, with_duration (normalized r))) k5"
    by (simp add: rows_add_duration r5 case_prod_unfold comp_def)
  then show ?thesis
    using res k5 by simp
qed

subsection \<open>The example files\<close>

lemma timestamp_examples:
  "timestamp friday_5pm = 63866768400"
  "timestamp sunday_night = 63866966340"
  "timestamp sunday_night_late = 63866966341"
  by (simp_all add: friday_5pm_def sunday_night_def sunday_night_late_def moment_def
        timestamp_def ymd2ord_def days_before_year_def days_before_month_def is_leap_def)

lemma task_cells:
  "task n s e ''Activity Number'' = Text n"
  "task n s e ''Start Date (CET)'' = Text s"
  "task n s e ''End Date (CET)'' = Text e"
  by (simp_all add: task_def)

lemma parsed_examples:
  "try_formats ''10/11/24 00:00'' date_formats = Some (moment 2024 11 10 0 0 0)"
  "try_formats ''08/11/24 00:00'' date_formats = Some (moment 2024 11 8 0 0 0)"
  "try_formats ''08/11/24 10:00'' date_formats = Some (moment 2024 11 8 10 0 0)"
  "try_formats ''08/11/24 12:30'' date_formats = Some (moment 2024 11 8 12 30 0)"
  "try_formats ''09/11/24 08:00'' date_formats = Some (moment 2024 11 9 8 0 0)"
  "try_formats ''09/11/24 09:00'' date_formats = Some (moment 2024 11 9 9 0 0)"
  "try_formats ''09/11/24 10:00'' date_formats = Some (moment 2024 11 9 10 0 0)"
  "try_formats ''09/11/24 22:00'' date_formats = Some (moment 2024 11 9 22 0 0)"
  "try_formats ''10/11/24 23:59'' date_formats = Some (moment 2024 11 10 23 59 0)"
  "try_formats ''12/11/24 10:00'' date_formats = Some (moment 2024 11 12 10 0 0)"
  "try_formats ''12/11/24 12:30'' date_formats = Some (moment 2024 11 12 12 30 0)"
  "try_formats ''tomorrow'' date_formats = None"
  by code_simp+

lemma window_examples:
  "parse_window ''10/11/2024 00:00'' ''08/11/2024 00:00''
     = Inr (moment 2024 11 10 0 0 0, moment 2024 11 8 0 0 0)"
  "parse_window ''08/11/2024 10:00'' ''10/11/2024 23:59''
     = Inr (moment 2024 11 8 10 0 0, moment 2024 11 10 23 59 0)"
  by code_simp+

lemma timestamp_moment:
  "timestamp (moment 2024 11 d h m s)
     = (739190 + int d) * 86400 + int h * 3600 + int m * 60 + int s"
  by (simp add: moment_def timestamp_def ymd2ord_def days_before_year_def
        days_before_month_def is_leap_def)

lemma survives_task:
  "survives required_columns a b (task n s e) =
     (case (try_formats s date_formats, try_formats e date_formats) of
        (Some u, Some v) \<Rightarrow>
          startswith ''Prod'' (Text n) \<and> timestamp a \<le> timestamp u \<and> timestamp v \<le> timestamp b
      | _ \<Rightarrow> False)"
  by (auto simp: survives_def task_cells normalized_def parse_dates_def to_cell_def
        date_columns_def required_columns_def in_range_def ge_date_def
        le_date_def split: option.splits)

lemma survives_no_row: "\<not> survives required_columns a b no_row"
  by (simp add: survives_def no_row_def required_columns_def)

lemma survives_missing_start:
  "\<not> survives cols a b (r(''Start Date (CET)'' := Missing))"
  by (simp add: survives_def normalized_def parse_dates_def to_cell_def date_columns_def)

lemma backward_survivors:
  "filter (\<lambda>(i, r). survives (columns backward_plan) (moment 2024 11 10 0 0 0) (moment 2024 11 8 0 0 0) r)
     (rows backward_plan) = rows backward_plan"
  by (simp add: backward_plan_def survives_task parsed_examples timestamp_moment startswith_def)

lemma weekend_survivors:
  "filter (\<lambda>(i, r). survives (columns weekend_plan) (moment 2024 11 8 10 0 0) (moment 2024 11 10 23 59 0) r)
     (rows weekend_plan)
   = [(0, task ''Prod1'' ''08/11/24 10:00'' ''08/11/24 12:30''),
      (4, task ''Prod4'' ''09/11/24 22:00'' ''10/11/24 23:59'')]"
  by (simp add: weekend_plan_def survives_task survives_no_row survives_missing_start
        parsed_examples timestamp_moment startswith_def)

subsection \<open>The date-range filter\<close>

lemma in_range_stamps:
  "r ''Start Date (CET)'' = Stamp s \<Longrightarrow> r ''End Date (CET)'' = Stamp e \<Longrightarrow>
   in_range a b r = (timestamp a \<le> timestamp s \<and> timestamp e \<le> timestamp b)"
  by (simp add: in_range_def ge_date_def le_date_def)

lemma filter_range_cases:
  "filter_range sf ef a b df =
     (if filter (\<lambda>(i, r). in_range a b r) (rows df) = [] \<or> columns df = []
      then Inl (ValueError, No_rows_in_range sf ef)
      else Inr (df\<lparr>rows := filter (\<lambda>(i, r). in_range a b r) (rows df)\<rparr>))"
  by (simp add: filter_range_def empty_def Let_def)

text \<open>
  C4. For a row of the table whose two dates are datetimes, the date-range filter keeps
  the row exactly when its start is at or after the lower bound and its end is at or
  before the upper bound. A row that starts on the lower bound and ends on the upper
  bound is kept, and a row that ends one second after the upper bound is dropped. The
  stage raises (no tasks in the range, with the two bounds as given) when no row is
  kept, and that is its only error.
\<close>

theorem filter_range_inclusive:
  "r ''Start Date (CET)'' = Stamp s \<Longrightarrow> r ''End Date (CET)'' = Stamp e \<Longrightarrow>
   (i, r) \<in> set (rows df) \<Longrightarrow>
     (case filter_range start_date_filter end_date_filter a b df of
        Inr out \<Rightarrow>
          rows out \<noteq> []
          \<and> ((i, r) \<in> set (rows out)) = (timestamp a \<le> timestamp s \<and> timestamp e \<le> timestamp b)
      | Inl err \<Rightarrow>
          err = (ValueError, No_rows_in_range start_date_filter end_date_filter)
          \<and> (columns df = [] \<or> \<not> (timestamp a \<le> timestamp s \<and> timestamp e \<le> timestamp b)))
     \<and> (filter (\<lambda>(i, r). in_range a b r) (rows df) = [] \<longrightarrow>
          filter_range start_date_filter end_date_filter a b df
            = Inl (ValueError, No_rows_in_range start_date_filter end_date_filter))
     \<and> (timestamp s = timestamp a \<and> timestamp e = timestamp b \<longrightarrow> in_range a b r)
     \<and> (timestamp e = timestamp b + 1 \<longrightarrow> \<not> in_range a b r)"
proof -
  assume s: "r ''Start Date (CET)'' = Stamp s" and e: "r ''End Date (CET)'' = Stamp e"
    and m: "(i, r) \<in> set (rows df)"
  have k: "in_range a b r = (timestamp a \<le> timestamp s \<and> timestamp e \<le> timestamp b)"
    using s e by (rule in_range_stamps)
  have mem: "((i, r) \<in> set (filter (\<lambda>(i, r). in_range a b r) (rows df)))
      = (timestamp a \<le> timestamp s \<and> timestamp e \<le> timestamp b)"
    using m k by simp
  have nil: "filter (\<lambda>(i, r). in_range a b r) (rows df) = [] \<Longrightarrow>
      \<not> (timestamp a \<le> timestamp s \<and> timestamp e \<le> timestamp b)"
    using mem by auto
  show ?thesis
    using mem nil k by (auto simp: filter_range_cases)
qed

text \<open>
  In the window from Friday 17:00 to Sunday 23:59, the task on the bounds is kept and the
  task that ends at 23:59:01 is dropped.
\<close>

theorem filter_range_inclusive_witness:
  "(0, dated ''Prod1'' friday_5pm sunday_night) \<in> set (rows window_plan)
   \<and> (1, dated ''Prod2'' friday_5pm sunday_night_late) \<in> set (rows window_plan)
   \<and> timestamp sunday_night_late = timestamp sunday_night + 1
   \<and> in_range friday_5pm sunday_night (dated ''Prod1'' friday_5pm sunday_night)
   \<and> \<not> in_range friday_5pm sunday_night (dated ''Prod2'' friday_5pm sunday_night_late)"
proof -
  have m: "(0, dated ''Prod1'' friday_5pm sunday_night) \<in> set (rows window_plan)"
    by (simp add: window_plan_def)
  have m': "(1, dated ''Prod2'' friday_5pm sunday_night_late) \<in> set (rows window_plan)"
    by (simp add: window_plan_def)
  have t: "timestamp sunday_night_late = timestamp sunday_night + 1"
    by (simp add: timestamp_examples)
  have k: "in_range friday_5pm sunday_night (dated ''Prod1'' friday_5pm sunday_night)"
    using filter_range_inclusive
      [of "dated ''Prod1'' friday_5pm sunday_night" friday_5pm sunday_night 0 window_plan
          "''08/11/2024 17:00''" "''10/11/2024 23:59''" friday_5pm sunday_night, OF _ _ m]
    by (simp add: dated_def)
  have d: "\<not> in_range friday_5pm sunday_night (dated ''Prod2'' friday_5pm sunday_night_late)"
    using filter_range_inclusive
      [of "dated ''Prod2'' friday_5pm sunday_night_late" friday_5pm sunday_night_late 1
          window_plan "''08/11/2024 17:00''" "''10/11/2024 23:59''" friday_5pm sunday_night,
       OF _ _ m'] t
    by (simp add: dated_def)
  show ?thesis using m m' t k d by simp
qed

subsection \<open>The rows of a successful run\<close>

text \<open>
  C9. When \<open>read_and_process_data\<close> returns a table, its rows are a subsequence of the
  rows of the table that was read, in the same order and each at most once, with their
  index labels; each row is as it was read except in the two date columns, which hold
  the parsed dates, and in the duration column.
\<close>

theorem output_is_subsequence_of_input:
  "snd (read_table w file_path) = Inr df0 \<Longrightarrow>
   snd (read_and_process_data w file_path start_date_filter end_date_filter) = Inr df \<Longrightarrow>
     (\<exists>kept. subseq kept (rows df0)
        \<and> rows df = map (\<lambda>(i, r). (i, with_duration (normalized r))) kept)
     \<and> (\<forall>r c. c \<noteq> ''Start Date (CET)'' \<and> c \<noteq> ''End Date (CET)'' \<and> c \<noteq> ''Duration (Hours)''
            \<longrightarrow> with_duration (normalized r) c = r c)"
proof -
  assume t: "snd (read_table w file_path) = Inr df0"
    and ok: "snd (read_and_process_data w file_path start_date_filter end_date_filter) = Inr df"
  from ok obtain df0' where "snd (read_table w file_path) = Inr df0'"
    and p: "snd (process_table df0' start_date_filter end_date_filter) = Inr df"
    by (rule read_and_process_data_success)
  with t have p0: "snd (process_table df0 start_date_filter end_date_filter) = Inr df"
    by simp
  then have "\<exists>kept. subseq kept (rows df0)
        \<and> rows df = map (\<lambda>(i, r). (i, with_duration (normalized r))) kept"
    using process_table_rows by blast
  then show ?thesis
    using untouched_columns by blast
qed

subsection \<open>Rounding to a binary float\<close>















subsection \<open>The range of the parsed dates\<close>













subsection \<open>The duration\<close>


subsection \<open>Runs on the example files\<close>

lemma read_and_process_data_of_table:
  "path_exists w p \<Longrightarrow> snd (read_table w p) = Inr df0 \<Longrightarrow>
     snd (read_and_process_data w p sf ef) =
       (case snd (process_table df0 sf ef) of
          Inl (cls, m) \<Rightarrow> Inl (Exception, Error_processing m)
        | Inr df \<Rightarrow> Inr df)"
  by (simp add: snd_read_and_process_data snd_try_block)

lemma read_and_process_data_of_success:
  "path_exists w p \<Longrightarrow> snd (read_table w p) = Inr df0 \<Longrightarrow>
   \<not> isl (snd (process_table df0 sf ef)) \<Longrightarrow>
     snd (read_and_process_data w p sf ef) = snd (process_table df0 sf ef)"
  by (cases "snd (process_table df0 sf ef)") (simp_all add: read_and_process_data_of_table)

lemma backward_table: "snd (read_table backward_disk ''plan.csv'') = Inr backward_plan"
  by (simp add: read_table_def splitext_def lower_def try_read_csv_def encodings_def
        backward_disk_def)

lemma weekend_table: "snd (read_table weekend_disk ''plan.csv'') = Inr weekend_plan"
  by (simp add: read_table_def splitext_def lower_def try_read_csv_def encodings_def
        weekend_disk_def)

lemma backward_run:
  "\<not> isl (snd (read_and_process_data backward_disk ''plan.csv'' ''10/11/2024 00:00'' ''08/11/2024 00:00''))"
  "rows (projr (snd (read_and_process_data backward_disk ''plan.csv'' ''10/11/2024 00:00'' ''08/11/2024 00:00'')))
     = [(0, with_duration (normalized (task ''Prod1'' ''10/11/24 00:00'' ''08/11/24 00:00'')))]"
proof -
  have p: "\<not> isl (snd (process_table backward_plan ''10/11/2024 00:00'' ''08/11/2024 00:00''))
     \<and> rows (projr (snd (process_table backward_plan ''10/11/2024 00:00'' ''08/11/2024 00:00'')))
        = map (\<lambda>(i, r). (i, with_duration (normalized r))) (rows backward_plan)"
    using process_table_succeeds [of backward_plan "''10/11/2024 00:00''" "''08/11/2024 00:00''"
        "moment 2024 11 10 0 0 0" "moment 2024 11 8 0 0 0"]
    by (simp add: window_examples backward_survivors) (simp add: backward_plan_def)
  have e: "snd (read_and_process_data backward_disk ''plan.csv'' ''10/11/2024 00:00'' ''08/11/2024 00:00'')
      = snd (process_table backward_plan ''10/11/2024 00:00'' ''08/11/2024 00:00'')"
    using backward_table p
    by (intro read_and_process_data_of_success) (simp_all add: backward_disk_def)
  show "\<not> isl (snd (read_and_process_data backward_disk ''plan.csv'' ''10/11/2024 00:00'' ''08/11/2024 00:00''))"
    using p e by simp
  show "rows (projr (snd (read_and_process_data backward_disk ''plan.csv'' ''10/11/2024 00:00'' ''08/11/2024 00:00'')))
     = [(0, with_duration (normalized (task ''Prod1'' ''10/11/24 00:00'' ''08/11/24 00:00'')))]"
    using p e by (simp add: backward_plan_def)
qed

lemma weekend_run:
  "\<not> isl (snd (read_and_process_data weekend_disk ''plan.csv'' ''08/11/2024 10:00'' ''10/11/2024 23:59''))"
  "rows (projr (snd (read_and_process_data weekend_disk ''plan.csv'' ''08/11/2024 10:00'' ''10/11/2024 23:59'')))
     = [(0, with_duration (normalized (task ''Prod1'' ''08/11/24 10:00'' ''08/11/24 12:30''))),
        (4, with_duration (normalized (task ''Prod4'' ''09/11/24 22:00'' ''10/11/24 23:59'')))]"
proof -
  have p: "\<not> isl (snd (process_table weekend_plan ''08/11/2024 10:00'' ''10/11/2024 23:59''))
     \<and> rows (projr (snd (process_table weekend_plan ''08/11/2024 10:00'' ''10/11/2024 23:59'')))
        = [(0, with_duration (normalized (task ''Prod1'' ''08/11/24 10:00'' ''08/11/24 12:30''))),
           (4, with_duration (normalized (task ''Prod4'' ''09/11/24 22:00'' ''10/11/24 23:59'')))]"
    using process_table_succeeds [of weekend_plan "''08/11/2024 10:00''" "''10/11/2024 23:59''"
        "moment 2024 11 8 10 0 0" "moment 2024 11 10 23 59 0"]
    by (simp add: window_examples weekend_survivors) (simp add: weekend_plan_def)
  have e: "snd (read_and_process_data weekend_disk ''plan.csv'' ''08/11/2024 10:00'' ''10/11/2024 23:59'')
      = snd (process_table weekend_plan ''08/11/2024 10:00'' ''10/11/2024 23:59'')"
    using weekend_table p
    by (intro read_and_process_data_of_success) (simp_all add: weekend_disk_def)
  show "\<not> isl (snd (read_and_process_data weekend_disk ''plan.csv'' ''08/11/2024 10:00'' ''10/11/2024 23:59''))"
    using p e by simp
  show "rows (projr (snd (read_and_process_data weekend_disk ''plan.csv'' ''08/11/2024 10:00'' ''10/11/2024 23:59'')))
     = [(0, with_duration (normalized (task ''Prod1'' ''08/11/24 10:00'' ''08/11/24 12:30''))),
        (4, with_duration (normalized (task ''Prod4'' ''09/11/24 22:00'' ''10/11/24 23:59'')))]"
    using p e by simp
qed

lemma Inr_projr: "\<not> isl x \<Longrightarrow> x = Inr (projr x)"
  by (cases x) simp_all


text \<open>
  The file with seven rows, read for the week-end: the run returns the rows labelled 0
  and 4 of the table that was read, in that order.
\<close>

theorem output_is_subsequence_of_input_witness:
  "snd (read_table weekend_disk ''plan.csv'') = Inr weekend_plan
   \<and> \<not> isl (snd (read_and_process_data weekend_disk ''plan.csv''
                     ''08/11/2024 10:00'' ''10/11/2024 23:59''))
   \<and> map fst (rows weekend_plan) = [0, 1, 2, 3, 4, 5, 6]
   \<and> map fst (rows (projr (snd (read_and_process_data weekend_disk ''plan.csv''
                                  ''08/11/2024 10:00'' ''10/11/2024 23:59'')))) = [0, 4]
   \<and> (\<exists>kept. subseq kept (rows weekend_plan)
        \<and> rows (projr (snd (read_and_process_data weekend_disk ''plan.csv''
                               ''08/11/2024 10:00'' ''10/11/2024 23:59'')))
            = map (\<lambda>(i, r). (i, with_duration (normalized r))) kept)"
proof -
  let ?R = "snd (read_and_process_data weekend_disk ''plan.csv''
                   ''08/11/2024 10:00'' ''10/11/2024 23:59'')"
  have ok: "?R = Inr (projr ?R)"
    using weekend_run(1) by (rule Inr_projr)
  have "\<exists>kept. subseq kept (rows weekend_plan)
        \<and> rows (projr ?R) = map (\<lambda>(i, r). (i, with_duration (normalized r))) kept"
    using output_is_subsequence_of_input [OF weekend_table ok] by blast
  moreover have "map fst (rows weekend_plan) = [0, 1, 2, 3, 4, 5, 6]"
    by (simp add: weekend_plan_def)
  moreover have "map fst (rows (projr ?R)) = [0, 4]"
    by (simp add: weekend_run(2))
  ultimately show ?thesis
    using weekend_table weekend_run(1) by blast
qed


subsection \<open>An inverted window\<close>

lemma in_range_inverted:
  "timestamp b < timestamp a \<Longrightarrow> in_range a b r \<Longrightarrow> runs_backward r"
  by (auto simp: in_range_def ge_date_def le_date_def runs_backward_def split: cell.splits)

lemma runs_backward_with_duration: "runs_backward (with_duration r) = runs_backward r"
  by (simp add: runs_backward_def with_duration_def)

text \<open>
  C1, as amended. When the lower bound of the window is after the upper bound, the
  date-range filter keeps the rows with start at or after the lower bound and end at or
  before the upper bound, and every such row ends before it starts. So the stage
  returns only rows that end before they start, and it raises (no tasks in the range)
  when no row is kept, in particular when no row of the table ends before it starts;
  it has no other outcome. A run of \<open>read_and_process_data\<close> that returns a table for
  such a window returns only rows that end before they start.
\<close>

theorem inverted_window_keeps_only_backward_rows:
  "timestamp b < timestamp a \<Longrightarrow>
     (case filter_range start_date_filter end_date_filter a b df of
        Inl err \<Rightarrow> err = (ValueError, No_rows_in_range start_date_filter end_date_filter)
      | Inr out \<Rightarrow>
          rows out \<noteq> []
          \<and> rows out = filter (\<lambda>(i, r). in_range a b r) (rows df)
          \<and> list_all (\<lambda>(i, r). runs_backward r) (rows out))
     \<and> (list_all (\<lambda>(i, r). \<not> runs_backward r) (rows df) \<longrightarrow>
          filter_range start_date_filter end_date_filter a b df
            = Inl (ValueError, No_rows_in_range start_date_filter end_date_filter))
     \<and> (parse_window start_date_filter end_date_filter = Inr (a, b)
          \<and> snd (read_and_process_data w file_path start_date_filter end_date_filter) = Inr res
          \<longrightarrow> list_all (\<lambda>(i, r). runs_backward r) (rows res))"
proof -
  assume inv: "timestamp b < timestamp a"
  let ?kept = "filter (\<lambda>(i, r). in_range a b r) (rows df)"
  have bw: "list_all (\<lambda>(i, r). runs_backward r) (filter (\<lambda>(i, r). in_range a b r) xs)" for xs
    using in_range_inverted [OF inv] by (auto simp: list_all_iff)
  have 1: "(case filter_range start_date_filter end_date_filter a b df of
        Inl err \<Rightarrow> err = (ValueError, No_rows_in_range start_date_filter end_date_filter)
      | Inr out \<Rightarrow>
          rows out \<noteq> []
          \<and> rows out = filter (\<lambda>(i, r). in_range a b r) (rows df)
          \<and> list_all (\<lambda>(i, r). runs_backward r) (rows out))"
    using bw [of "rows df"] by (simp add: filter_range_cases)
  have 2: "filter_range start_date_filter end_date_filter a b df
            = Inl (ValueError, No_rows_in_range start_date_filter end_date_filter)"
    if fwd: "list_all (\<lambda>(i, r). \<not> runs_backward r) (rows df)"
  proof -
    have "?kept = []"
      using fwd in_range_inverted [OF inv] by (auto simp: list_all_iff filter_empty_conv)
    then show ?thesis by (simp add: filter_range_cases)
  qed
  have 3: "list_all (\<lambda>(i, r). runs_backward r) (rows res)"
    if win: "parse_window start_date_filter end_date_filter = Inr (a, b)"
      and ok: "snd (read_and_process_data w file_path start_date_filter end_date_filter) = Inr res"
  proof -
    from ok obtain df0 where
      "snd (process_table df0 start_date_filter end_date_filter) = Inr res"
      by (rule read_and_process_data_success)
    then obtain df4 a' b' df5 where
      w': "parse_window start_date_filter end_date_filter = Inr (a', b')" and
      s5: "filter_range start_date_filter end_date_filter a' b' df4 = Inr df5" and
      s6: "res = add_duration df5"
      by (rule process_table_success)
    from win w' have "a' = a" "b' = b" by simp_all
    with s5 have "rows df5 = filter (\<lambda>(i, r). in_range a b r) (rows df4)"
      using filter_range_rows by blast
    then have "list_all (\<lambda>(i, r). runs_backward r) (rows df5)"
      using bw [of "rows df4"] by simp
    then show ?thesis
      by (auto simp: s6 rows_add_duration list_all_iff runs_backward_with_duration)
  qed
  show ?thesis using 1 2 3 by blast
qed

text \<open>
  The table with the two week-end tasks, none of which ends before it starts, filtered
  with the window from Sunday 23:59 to Friday 17:00: the stage raises.
\<close>

theorem inverted_window_keeps_only_backward_rows_witness:
  "timestamp friday_5pm < timestamp sunday_night
   \<and> list_all (\<lambda>(i, r). \<not> runs_backward r) (rows window_plan)
   \<and> filter_range ''10/11/2024 23:59'' ''08/11/2024 17:00'' sunday_night friday_5pm window_plan
       = Inl (ValueError, No_rows_in_range ''10/11/2024 23:59'' ''08/11/2024 17:00'')"
proof -
  have inv: "timestamp friday_5pm < timestamp sunday_night"
    by (simp add: timestamp_examples)
  have fwd: "list_all (\<lambda>(i, r). \<not> runs_backward r) (rows window_plan)"
    by (simp add: window_plan_def runs_backward_def dated_def timestamp_examples)
  show ?thesis
    using inv fwd
      inverted_window_keeps_only_backward_rows [OF inv,
        of "''10/11/2024 23:59''" "''08/11/2024 17:00''" window_plan]
    by simp
qed

text \<open>
  C1 as stated fails: the window from the 10th to the 8th is inverted, and the run on
  the file whose task starts on the 10th and ends on the 8th returns that task.
\<close>

theorem inverted_window_counterexample:
  "parse_window ''10/11/2024 00:00'' ''08/11/2024 00:00''
     = Inr (moment 2024 11 10 0 0 0, moment 2024 11 8 0 0 0)
   \<and> timestamp (moment 2024 11 8 0 0 0) < timestamp (moment 2024 11 10 0 0 0)
   \<and> \<not> isl (snd (read_and_process_data backward_disk ''plan.csv''
                     ''10/11/2024 00:00'' ''08/11/2024 00:00''))
   \<and> map fst (rows (projr (snd (read_and_process_data backward_disk ''plan.csv''
                                  ''10/11/2024 00:00'' ''08/11/2024 00:00'')))) = [0]"
  using backward_run(1)
  by (simp add: window_examples timestamp_moment backward_run(2))

subsection \<open>The prefix filter\<close>

lemma filter_prod_cases:
  "str_accessor_ok df ''Activity Number'' \<Longrightarrow>
   filter_prod df =
     (if filter (\<lambda>(i, r). startswith ''Prod'' (r ''Activity Number'')) (rows df) = []
         \<or> columns df = []
      then Inl (ValueError, No_prod_rows)
      else Inr (df\<lparr>rows := filter (\<lambda>(i, r). startswith ''Prod'' (r ''Activity Number''))
                                  (rows df)\<rparr>))"
  by (simp add: filter_prod_def empty_def Let_def)

lemma startswith_Prod:
  "startswith ''Prod'' c = (\<exists>s. c = Text s \<and> take 4 s = ''Prod'')"
  by (cases c) (simp_all add: startswith_def eval_nat_numeral)

text \<open>
  The prefix filter on a number column that holds strings (one that the \<^verbatim>\<open>.str\<close>
  accessor accepts): it keeps a row of the table exactly when its number is a string that
  starts with \<^verbatim>\<open>Prod\<close>, compared character by character: \<^verbatim>\<open>ProdX\<close> is kept,
  \<^verbatim>\<open>prodX\<close> is dropped, and a row with a missing number is never kept. The stage
  raises (no task starts with \<^verbatim>\<open>Prod\<close>) when no row is kept, and has no other error.
\<close>

theorem filter_prod_keeps_prefix:
  "str_accessor_ok df ''Activity Number'' \<Longrightarrow> (i, r) \<in> set (rows df) \<Longrightarrow>
     (case filter_prod df of
        Inr out \<Rightarrow>
          rows out \<noteq> []
          \<and> ((i, r) \<in> set (rows out))
              = (\<exists>s. r ''Activity Number'' = Text s \<and> take 4 s = ''Prod'')
      | Inl err \<Rightarrow>
          err = (ValueError, No_prod_rows)
          \<and> (columns df = [] \<or> \<not> (\<exists>s. r ''Activity Number'' = Text s \<and> take 4 s = ''Prod'')))
     \<and> (filter (\<lambda>(i, r). startswith ''Prod'' (r ''Activity Number'')) (rows df) = [] \<longrightarrow>
          filter_prod df = Inl (ValueError, No_prod_rows))
     \<and> (r ''Activity Number'' = Missing \<longrightarrow>
          (case filter_prod df of Inr out \<Rightarrow> (i, r) \<notin> set (rows out) | Inl err \<Rightarrow> True))
     \<and> startswith ''Prod'' (Text ''ProdX'')
     \<and> \<not> startswith ''Prod'' (Text ''prodX'')
     \<and> \<not> startswith ''Prod'' Missing"
proof -
  assume acc: "str_accessor_ok df ''Activity Number''" and m: "(i, r) \<in> set (rows df)"
  let ?kept = "filter (\<lambda>(i, r). startswith ''Prod'' (r ''Activity Number'')) (rows df)"
  have mem: "((i, r) \<in> set ?kept)
      = (\<exists>s. r ''Activity Number'' = Text s \<and> take 4 s = ''Prod'')"
    using m by (simp add: startswith_Prod)
  have nil: "?kept = [] \<Longrightarrow> \<not> (\<exists>s. r ''Activity Number'' = Text s \<and> take 4 s = ''Prod'')"
    using mem by auto
  have ex: "startswith ''Prod'' (Text ''ProdX'')" "\<not> startswith ''Prod'' (Text ''prodX'')"
    "\<not> startswith ''Prod'' Missing"
    by (simp_all add: startswith_def)
  show ?thesis
    using mem nil ex by (auto simp: filter_prod_cases [OF acc])
qed

text \<open>
  Of the three rows numbered \<^verbatim>\<open>ProdX\<close>, \<^verbatim>\<open>prodX\<close> and missing, the first is kept and
  the other two are not.
\<close>

theorem filter_prod_keeps_prefix_witness:
  "str_accessor_ok prefix_plan ''Activity Number''
   \<and> \<not> isl (filter_prod prefix_plan)
   \<and> (0, dated ''ProdX'' friday_5pm sunday_night) \<in> set (rows (projr (filter_prod prefix_plan)))
   \<and> (1, dated ''prodX'' friday_5pm sunday_night) \<notin> set (rows (projr (filter_prod prefix_plan)))
   \<and> (2, (dated [] friday_5pm sunday_night)(''Activity Number'' := Missing))
        \<notin> set (rows (projr (filter_prod prefix_plan)))"
proof -
  have id: "dated n s e ''Activity Number'' = Text n" for n s e
    by (simp add: dated_def task_cells)
  have acc: "str_accessor_ok prefix_plan ''Activity Number''"
    by (simp add: str_accessor_ok_def column_def prefix_plan_def id is_number_def is_stamp_def)
  have m0: "(0, dated ''ProdX'' friday_5pm sunday_night) \<in> set (rows prefix_plan)"
    and m1: "(1, dated ''prodX'' friday_5pm sunday_night) \<in> set (rows prefix_plan)"
    and m2: "(2, (dated [] friday_5pm sunday_night)(''Activity Number'' := Missing))
               \<in> set (rows prefix_plan)"
    by (simp_all add: prefix_plan_def)
  have c: "columns prefix_plan \<noteq> []"
    by (simp add: prefix_plan_def required_columns_def)
  have ok: "\<not> isl (filter_prod prefix_plan)"
    using filter_prod_keeps_prefix [OF acc m0] c by (auto simp: id split: sum.splits)
  have k0: "(0, dated ''ProdX'' friday_5pm sunday_night)
              \<in> set (rows (projr (filter_prod prefix_plan)))"
    using filter_prod_keeps_prefix [OF acc m0] ok by (auto simp: id split: sum.splits)
  have k1: "(1, dated ''prodX'' friday_5pm sunday_night)
              \<notin> set (rows (projr (filter_prod prefix_plan)))"
    using filter_prod_keeps_prefix [OF acc m1] ok by (auto simp: id split: sum.splits)
  have k2: "(2, (dated [] friday_5pm sunday_night)(''Activity Number'' := Missing))
              \<notin> set (rows (projr (filter_prod prefix_plan)))"
    using filter_prod_keeps_prefix [OF acc m2] ok by (auto split: sum.splits)
  show ?thesis using acc ok k0 k1 k2 by simp
qed

lemma process_table_needs_strings:
  assumes cols: "set required_columns \<subseteq> set (columns df0)"
    and obj: "dtypes df0 ''Activity Number'' \<noteq> Object"
    and some: "filter (\<lambda>(i, r). list_ex (\<lambda>c. r c \<noteq> Missing) (columns df0)
                 \<and> list_all (\<lambda>c. normalized r c \<noteq> Missing) date_columns) (rows df0) \<noteq> []"
  shows "snd (process_table df0 sf ef) = Inl (AttributeError, Str_accessor_needs_strings)"
proof -
  define k1 where "k1 = filter (\<lambda>(i, r). list_ex (\<lambda>c. r c \<noteq> Missing) (columns df0)) (rows df0)"
  define k3 where
    "k3 = filter (\<lambda>(i, r). list_all (\<lambda>c. normalized r c \<noteq> Missing) date_columns) k1"
  have ne3: "k3 \<noteq> []"
    using some unfolding k3_def k1_def by (simp add: case_prod_unfold conj_commute)
  have c0: "columns df0 \<noteq> []"
    using cols by (auto simp: required_columns_def)
  define df1 where "df1 = dropna_all df0"
  have s1: "clean_and_validate_data df0 = Inr df1"
    using cols by (simp add: clean_and_validate_data_def Let_def df1_def columns_dropna_all
        filter_empty_conv subset_iff)
  have r1: "rows df1 = k1" and c1: "columns df1 = columns df0"
    and d1: "dtypes df1 ''Activity Number'' \<noteq> Object"
    using obj by (simp_all add: df1_def dropna_all_def k1_def)
  define df3 where "df3 = dropna_subset date_columns (snd (convert_columns date_columns df1))"
  have r3: "rows df3 = map (\<lambda>(i, r). (i, normalized r)) k3"
    by (simp add: df3_def dropna_subset_def rows_convert_columns r1 filter_map_rows k3_def)
  have c3: "columns df3 = columns df0"
    by (simp add: df3_def dropna_subset_def columns_convert_columns c1)
  have d3: "dtypes df3 ''Activity Number'' \<noteq> Object"
    using d1 by (simp add: df3_def dropna_subset_def dtypes_convert_columns)
  have s3: "drop_invalid (snd (convert_columns date_columns df1)) = Inr df3"
    using ne3 c0 r3 c3 by (simp add: drop_invalid_def Let_def empty_def df3_def [symmetric])
  have s4: "filter_prod df3 = Inl (AttributeError, Str_accessor_needs_strings)"
    using d3 by (simp add: filter_prod_def str_accessor_ok_def)
  show ?thesis
    by (simp add: snd_process_table s1 s3 s4)
qed

text \<open>
  C5. The prefix filter is to drop the rows with a missing number and to fail, for lack
  of tasks that start with \<^verbatim>\<open>Prod\<close>, when no row remains. On the file whose number
  column is empty in every row it does neither: the \<^verbatim>\<open>.str\<close> accessor raises
  \<^verbatim>\<open>AttributeError\<close> on the column of floats, and the run reports that error.
\<close>

theorem empty_number_column_raises:
  "column unnumbered_plan ''Activity Number'' = [Missing]
   \<and> snd (read_and_process_data unnumbered_disk ''plan.csv''
            ''08/11/2024 10:00'' ''10/11/2024 23:59'')
       = Inl (Exception, Error_processing Str_accessor_needs_strings)
   \<and> snd (read_and_process_data unnumbered_disk ''plan.csv''
            ''08/11/2024 10:00'' ''10/11/2024 23:59'')
       \<noteq> Inl (Exception, Error_processing No_prod_rows)"
proof -
  have t: "snd (read_table unnumbered_disk ''plan.csv'') = Inr unnumbered_plan"
    by (simp add: read_table_def splitext_def lower_def try_read_csv_def encodings_def
        unnumbered_disk_def)
  have c: "column unnumbered_plan ''Activity Number'' = [Missing]"
    by (simp add: column_def unnumbered_plan_def)
  have "snd (process_table unnumbered_plan ''08/11/2024 10:00'' ''10/11/2024 23:59'')
      = Inl (AttributeError, Str_accessor_needs_strings)"
    by (rule process_table_needs_strings)
       (simp_all add: unnumbered_plan_def required_columns_def date_columns_def normalized_def
          task_cells parse_dates_def parsed_examples to_cell_def)
  then have "snd (read_and_process_data unnumbered_disk ''plan.csv''
            ''08/11/2024 10:00'' ''10/11/2024 23:59'')
       = Inl (Exception, Error_processing Str_accessor_needs_strings)"
    using t by (simp add: read_and_process_data_of_table unnumbered_disk_def)
  then show ?thesis using c by simp
qed

subsection \<open>Dates that do not parse\<close>

lemma fst_apply_parse_dates:
  "fst (apply_parse_dates c df) = concat (map (\<lambda>(i, r). fst (parse_dates (r c))) (rows df))"
  by (simp add: apply_parse_dates_def Let_def case_prod_unfold comp_def)

lemma to_cell_Missing: "(to_cell d = Missing) = (d = None)"
  by (cases d) (simp_all add: to_cell_def)

lemma invalid_dates_converted:
  "invalid_dates c (snd (apply_parse_dates c df))
     = map (\<lambda>(i, r). (i, (r(c := Missing)) ''Activity Number'', Missing))
           (filter (\<lambda>(i, r). snd (parse_dates (r c)) = None) (rows df))"
proof -
  have "invalid_dates c (df\<lparr>rows := map (\<lambda>(i, r). (i, r(c := to_cell (snd (parse_dates (r c)))))) xs\<rparr>)
     = map (\<lambda>(i, r). (i, (r(c := Missing)) ''Activity Number'', Missing))
           (filter (\<lambda>(i, r). snd (parse_dates (r c)) = None) xs)" for xs
    by (induction xs) (auto simp: invalid_dates_def to_cell_Missing)
  then show ?thesis
    by (simp add: invalid_dates_def rows_apply_parse_dates)
qed

lemma fst_convert_column:
  "fst (convert_column c df) =
     Processing_column c # concat (map (\<lambda>(i, r). fst (parse_dates (r c))) (rows df))
       @ (if invalid_dates c (snd (apply_parse_dates c df)) = [] then []
          else [Invalid_dates_warning c (invalid_dates c (snd (apply_parse_dates c df)))])"
  by (simp add: convert_column_def fst_apply_parse_dates [symmetric] split: prod.splits)

text \<open>
  C3, as amended. \<open>parse_dates\<close> returns no date and prints nothing for a missing cell;
  for a cell that is not missing and that no format matches it returns no date and
  prints one line with the cell as it was; for a cell that parses it prints nothing. The
  conversion of a date column keeps every row and puts the parsed date, or a missing
  value, in the column; it prints the lines of \<open>parse_dates\<close> in row order and then, if
  some row has no date, one warning that lists every such row (whether its cell was
  missing or did not parse) with its index label, its activity number and the missing
  date. Nothing is raised.
\<close>

theorem unparsed_dates_are_reported:
  "parse_dates Missing = ([], None)
   \<and> (\<forall>s. c = Text s \<and> try_formats s date_formats = None \<longrightarrow>
         parse_dates c = ([Could_not_parse c], None))
   \<and> (c \<noteq> Missing \<and> snd (parse_dates c) = None \<longrightarrow> fst (parse_dates c) = [Could_not_parse c])
   \<and> (snd (parse_dates c) \<noteq> None \<longrightarrow> fst (parse_dates c) = [])
   \<and> rows (snd (convert_column date_col df))
       = map (\<lambda>(i, r). (i, r(date_col := to_cell (snd (parse_dates (r date_col)))))) (rows df)
   \<and> fst (convert_column date_col df)
       = Processing_column date_col
           # concat (map (\<lambda>(i, r). fst (parse_dates (r date_col))) (rows df))
           @ (let listed = map (\<lambda>(i, r). (i, (r(date_col := Missing)) ''Activity Number'', Missing))
                               (filter (\<lambda>(i, r). snd (parse_dates (r date_col)) = None) (rows df))
              in if listed = [] then [] else [Invalid_dates_warning date_col listed])"
proof -
  have 1: "parse_dates Missing = ([], None)"
    by (simp add: parse_dates_def)
  have 2: "\<forall>s. c = Text s \<and> try_formats s date_formats = None \<longrightarrow>
         parse_dates c = ([Could_not_parse c], None)"
    by (simp add: parse_dates_def)
  have 3: "c \<noteq> Missing \<and> snd (parse_dates c) = None \<longrightarrow> fst (parse_dates c) = [Could_not_parse c]"
    by (cases c) (auto simp: parse_dates_def split: option.splits)
  have 4: "snd (parse_dates c) \<noteq> None \<longrightarrow> fst (parse_dates c) = []"
    by (cases c) (auto simp: parse_dates_def split: option.splits)
  have 5: "rows (snd (convert_column date_col df))
       = map (\<lambda>(i, r). (i, r(date_col := to_cell (snd (parse_dates (r date_col)))))) (rows df)"
    by (simp add: snd_convert_column rows_apply_parse_dates)
  have 6: "fst (convert_column date_col df)
       = Processing_column date_col
           # concat (map (\<lambda>(i, r). fst (parse_dates (r date_col))) (rows df))
           @ (let listed = map (\<lambda>(i, r). (i, (r(date_col := Missing)) ''Activity Number'', Missing))
                               (filter (\<lambda>(i, r). snd (parse_dates (r date_col)) = None) (rows df))
              in if listed = [] then [] else [Invalid_dates_warning date_col listed])"
    unfolding fst_convert_column invalid_dates_converted by (simp add: Let_def)
  show ?thesis using 1 2 3 4 5 6 by blast
qed

lemma parse_examples:
  "parse_dates (Text ''tomorrow'') = ([Could_not_parse (Text ''tomorrow'')], None)"
  "parse_dates Missing = ([], None)"
  by (simp_all add: parse_dates_def parsed_examples)

text \<open>
  A start that is no date and a start that is missing: one line for the first, none for
  the second, and both rows in the warning.
\<close>

theorem unparsed_dates_are_reported_witness:
  "try_formats ''tomorrow'' date_formats = None
   \<and> parse_dates (Text ''tomorrow'') = ([Could_not_parse (Text ''tomorrow'')], None)
   \<and> column gaps_plan ''Start Date (CET)'' = [Text ''tomorrow'', Missing]
   \<and> column (snd (convert_column ''Start Date (CET)'' gaps_plan)) ''Start Date (CET)''
       = [Missing, Missing]
   \<and> fst (convert_column ''Start Date (CET)'' gaps_plan)
       = [Processing_column ''Start Date (CET)'', Could_not_parse (Text ''tomorrow''),
          Invalid_dates_warning ''Start Date (CET)''
            [(0, Text ''Prod1'', Missing), (1, Text ''Prod2'', Missing)]]"
proof -
  have n: "try_formats ''tomorrow'' date_formats = None"
    by (simp add: parsed_examples)
  have c: "column gaps_plan ''Start Date (CET)'' = [Text ''tomorrow'', Missing]"
    by (simp add: column_def gaps_plan_def task_cells)
  note u = unparsed_dates_are_reported [of "Text ''tomorrow''" "''Start Date (CET)''" gaps_plan]
  have p: "parse_dates (Text ''tomorrow'') = ([Could_not_parse (Text ''tomorrow'')], None)"
    using u n by simp
  have r: "column (snd (convert_column ''Start Date (CET)'' gaps_plan)) ''Start Date (CET)''
       = [Missing, Missing]"
    using u by (simp add: column_def gaps_plan_def task_cells parse_examples to_cell_def)
  have l: "fst (convert_column ''Start Date (CET)'' gaps_plan)
       = [Processing_column ''Start Date (CET)'', Could_not_parse (Text ''tomorrow''),
          Invalid_dates_warning ''Start Date (CET)''
            [(0, Text ''Prod1'', Missing), (1, Text ''Prod2'', Missing)]]"
    using u by (simp add: gaps_plan_def task_cells parse_examples)
  show ?thesis using n p c r l by simp
qed

text \<open>
  C3 as stated fails: in the table whose only start is missing, nothing fails to parse,
  and the conversion still reports the row in its warning about invalid dates.
\<close>

theorem missing_date_counterexample:
  "column blank_start_plan ''Start Date (CET)'' = [Missing]
   \<and> fst (convert_column ''Start Date (CET)'' blank_start_plan)
       = [Processing_column ''Start Date (CET)'',
          Invalid_dates_warning ''Start Date (CET)'' [(0, Text ''Prod6'', Missing)]]"
  by (simp add: column_def blank_start_plan_def fst_convert_column invalid_dates_converted
        task_cells parse_examples)

subsection \<open>Failures\<close>

lemma clean_and_validate_data_cases:
  "clean_and_validate_data df =
     (if set required_columns \<subseteq> set (columns df) then Inr (dropna_all df)
      else Inl (ValueError,
                Missing_columns (filter (\<lambda>col. col \<notin> set (columns df)) required_columns)))"
  using missing_nil_iff by (simp add: clean_and_validate_data_def columns_dropna_all Let_def)

lemma try_read_csv_error:
  "snd (try_read_csv w p) = Inl e \<Longrightarrow> e = (ValueError, No_encoding_worked)"
proof -
  assume a: "snd (try_read_csv w p) = Inl e"
  show ?thesis
  proof (cases "find (\<lambda>enc. \<not> isl (read_csv w p enc)) encodings")
    case None
    with a show ?thesis by (simp add: try_read_csv_def try_encodings_result)
  next
    case (Some enc)
    then have "\<not> isl (read_csv w p enc)" by (auto simp: find_Some_iff)
    with a Some show ?thesis by (simp add: try_read_csv_def try_encodings_result)
  qed
qed

lemma read_table_error:
  "snd (read_table w p) = Inl (c, m) \<Longrightarrow>
     m = Unsupported_format (lower (snd (splitext (path_seps w) p)))
     \<or> (\<exists>eng. read_excel w p eng = Inl (c, m))
     \<or> m = No_encoding_worked"
  by (auto simp: read_table_def quiet_def Let_def dest: try_read_csv_error split: if_splits)

lemma clean_and_validate_data_error:
  "clean_and_validate_data df = Inl (c, m) \<Longrightarrow> \<exists>cols. cols \<noteq> [] \<and> m = Missing_columns cols"
  by (auto simp: clean_and_validate_data_def Let_def split: if_splits)

lemma drop_invalid_error: "drop_invalid df = Inl (c, m) \<Longrightarrow> m = No_valid_rows"
  by (auto simp: drop_invalid_def Let_def split: if_splits)

lemma filter_prod_error:
  "filter_prod df = Inl (c, m) \<Longrightarrow> m = Str_accessor_needs_strings \<or> m = No_prod_rows"
  by (auto simp: filter_prod_def Let_def split: if_splits)

lemma parse_window_error:
  "parse_window sf ef = Inl (c, m) \<Longrightarrow>
     (\<exists>m'. m = Bad_start_filter sf m') \<or> (\<exists>m'. m = Bad_end_filter ef m')"
  by (auto simp: parse_window_def split: sum.splits)

lemma filter_range_error:
  "filter_range sf ef a b df = Inl (c, m) \<Longrightarrow> m = No_rows_in_range sf ef"
  by (auto simp: filter_range_def Let_def split: if_splits)

lemma process_table_error:
  assumes "snd (process_table df0 sf ef) = Inl (c, m)"
  shows "(\<exists>cols. cols \<noteq> [] \<and> m = Missing_columns cols)
     \<or> m = No_valid_rows \<or> m = Str_accessor_needs_strings \<or> m = No_prod_rows
     \<or> (\<exists>m'. m = Bad_start_filter sf m') \<or> (\<exists>m'. m = Bad_end_filter ef m')
     \<or> m = No_rows_in_range sf ef"
proof (cases "clean_and_validate_data df0")
  case (Inl e)
  with assms show ?thesis
    using clean_and_validate_data_error [of df0 c m] by (simp add: snd_process_table)
next
  case s1: (Inr df1)
  show ?thesis
  proof (cases "drop_invalid (snd (convert_columns date_columns df1))")
    case (Inl e)
    with assms s1 show ?thesis
      using drop_invalid_error [of _ c m] by (simp add: snd_process_table)
  next
    case s3: (Inr df3)
    show ?thesis
    proof (cases "filter_prod df3")
      case (Inl e)
      with assms s1 s3 show ?thesis
        using filter_prod_error [of df3 c m] by (auto simp: snd_process_table)
    next
      case s4: (Inr df4)
      show ?thesis
      proof (cases "parse_window sf ef")
        case (Inl e)
        with assms s1 s3 s4 show ?thesis
          using parse_window_error [of sf ef c m] by (auto simp: snd_process_table)
      next
        case (Inr ab)
        then obtain a b where s5: "parse_window sf ef = Inr (a, b)"
          by (cases ab) simp
        with assms s1 s3 s4 show ?thesis
          using filter_range_error [of sf ef a b df4 c m]
          by (auto simp: snd_process_table split: sum.splits)
      qed
    qed
  qed
qed

text \<open>
  C2, as amended. When the path does not exist, \<open>read_and_process_data\<close> raises
  \<^verbatim>\<open>FileNotFoundError\<close> as it is, not wrapped. Otherwise the stages run in order, the
  first stage that raises ends the run, and the run raises a plain \<^verbatim>\<open>Exception\<close> whose
  message holds the message of what that stage raised (the class of the cause is
  not kept); when no stage raises, the run returns the table with its durations. The
  causes are: an extension that no reader supports, a failure of the Excel reader, no
  encoding that reads the CSV file, required columns that are missing, no row with two
  valid dates, a number column that holds no strings, no task that starts with
  \<^verbatim>\<open>Prod\<close>, a bound of the window that is not in the format, no task in the window.
\<close>

theorem stage_failures_are_wrapped:
  "snd (read_and_process_data w file_path start_date_filter end_date_filter) =
     (if \<not> path_exists w file_path then Inl (FileNotFoundError, File_missing file_path)
      else
       (case snd (read_table w file_path) of
          Inl (c, m) \<Rightarrow> Inl (Exception, Error_processing m)
        | Inr df0 \<Rightarrow>
       (case clean_and_validate_data df0 of
          Inl (c, m) \<Rightarrow> Inl (Exception, Error_processing m)
        | Inr df1 \<Rightarrow>
       (case drop_invalid (snd (convert_columns date_columns df1)) of
          Inl (c, m) \<Rightarrow> Inl (Exception, Error_processing m)
        | Inr df3 \<Rightarrow>
       (case filter_prod df3 of
          Inl (c, m) \<Rightarrow> Inl (Exception, Error_processing m)
        | Inr df4 \<Rightarrow>
       (case parse_window start_date_filter end_date_filter of
          Inl (c, m) \<Rightarrow> Inl (Exception, Error_processing m)
        | Inr (a, b) \<Rightarrow>
       (case filter_range start_date_filter end_date_filter a b df4 of
          Inl (c, m) \<Rightarrow> Inl (Exception, Error_processing m)
        | Inr df5 \<Rightarrow> Inr (add_duration df5))))))))
   \<and> (\<forall>e. snd (read_and_process_data w file_path start_date_filter end_date_filter) = Inl e \<longrightarrow>
         (e = (FileNotFoundError, File_missing file_path) \<and> \<not> path_exists w file_path)
         \<or> (path_exists w file_path
             \<and> (\<exists>m. e = (Exception, Error_processing m)
                  \<and> (m = Unsupported_format (lower (snd (splitext (path_seps w) file_path)))
                     \<or> (\<exists>c eng. read_excel w file_path eng = Inl (c, m))
                     \<or> m = No_encoding_worked
                     \<or> (\<exists>cols. cols \<noteq> [] \<and> m = Missing_columns cols)
                     \<or> m = No_valid_rows
                     \<or> m = Str_accessor_needs_strings
                     \<or> m = No_prod_rows
                     \<or> (\<exists>m'. m = Bad_start_filter start_date_filter m')
                     \<or> (\<exists>m'. m = Bad_end_filter end_date_filter m')
                     \<or> m = No_rows_in_range start_date_filter end_date_filter))))"
proof -
  let ?R = "snd (read_and_process_data w file_path start_date_filter end_date_filter)"
  have 1: "?R =
     (if \<not> path_exists w file_path then Inl (FileNotFoundError, File_missing file_path)
      else
       (case snd (read_table w file_path) of
          Inl (c, m) \<Rightarrow> Inl (Exception, Error_processing m)
        | Inr df0 \<Rightarrow>
       (case clean_and_validate_data df0 of
          Inl (c, m) \<Rightarrow> Inl (Exception, Error_processing m)
        | Inr df1 \<Rightarrow>
       (case drop_invalid (snd (convert_columns date_columns df1)) of
          Inl (c, m) \<Rightarrow> Inl (Exception, Error_processing m)
        | Inr df3 \<Rightarrow>
       (case filter_prod df3 of
          Inl (c, m) \<Rightarrow> Inl (Exception, Error_processing m)
        | Inr df4 \<Rightarrow>
       (case parse_window start_date_filter end_date_filter of
          Inl (c, m) \<Rightarrow> Inl (Exception, Error_processing m)
        | Inr (a, b) \<Rightarrow>
       (case filter_range start_date_filter end_date_filter a b df4 of
          Inl (c, m) \<Rightarrow> Inl (Exception, Error_processing m)
        | Inr df5 \<Rightarrow> Inr (add_duration df5))))))))"
    by (simp add: snd_read_and_process_data snd_try_block snd_process_table
          split: sum.splits prod.splits)
  have 2: "(e = (FileNotFoundError, File_missing file_path) \<and> \<not> path_exists w file_path)
         \<or> (path_exists w file_path
             \<and> (\<exists>m. e = (Exception, Error_processing m)
                  \<and> (m = Unsupported_format (lower (snd (splitext (path_seps w) file_path)))
                     \<or> (\<exists>c eng. read_excel w file_path eng = Inl (c, m))
                     \<or> m = No_encoding_worked
                     \<or> (\<exists>cols. cols \<noteq> [] \<and> m = Missing_columns cols)
                     \<or> m = No_valid_rows
                     \<or> m = Str_accessor_needs_strings
                     \<or> m = No_prod_rows
                     \<or> (\<exists>m'. m = Bad_start_filter start_date_filter m')
                     \<or> (\<exists>m'. m = Bad_end_filter end_date_filter m')
                     \<or> m = No_rows_in_range start_date_filter end_date_filter)))"
    if err: "?R = Inl e" for e
  proof (cases "path_exists w file_path")
    case False
    with err show ?thesis by (simp add: snd_read_and_process_data)
  next
    case True
    show ?thesis
    proof (cases "snd (read_table w file_path)")
      case (Inl e0)
      obtain c m where e0: "e0 = (c, m)" by (cases e0)
      with Inl True err have "e = (Exception, Error_processing m)"
        by (simp add: snd_read_and_process_data snd_try_block)
      then show ?thesis
        using True read_table_error [of w file_path c m] Inl e0 by blast
    next
      case (Inr df0)
      with True err obtain c m where
        "snd (process_table df0 start_date_filter end_date_filter) = Inl (c, m)"
        and "e = (Exception, Error_processing m)"
        by (auto simp: snd_read_and_process_data snd_try_block split: sum.splits)
      then show ?thesis
        using True process_table_error [of df0 start_date_filter end_date_filter c m] by blast
    qed
  qed
  show ?thesis using 1 2 by blast
qed

text \<open>
  Where every path exists, \<^verbatim>\<open>plan.txt\<close> is rejected for its extension and \<^verbatim>\<open>plan.csv\<close>
  for its two missing columns, each inside a plain \<^verbatim>\<open>Exception\<close>.
\<close>

theorem stage_failures_are_wrapped_witness:
  "path_exists loose_disk ''plan.txt''
   \<and> snd (read_and_process_data loose_disk ''plan.txt'' ''08/11/2024 17:00'' ''10/11/2024 23:59'')
       = Inl (Exception, Error_processing (Unsupported_format ''.txt''))
   \<and> path_exists loose_disk ''plan.csv''
   \<and> snd (read_and_process_data loose_disk ''plan.csv'' ''08/11/2024 17:00'' ''10/11/2024 23:59'')
       = Inl (Exception,
              Error_processing (Missing_columns [''Activity'', ''Responsible Person'']))"
proof -
  have t: "snd (read_table loose_disk ''plan.txt'') = Inl (ValueError, Unsupported_format ''.txt'')"
    by (simp add: read_table_def splitext_def lower_def quiet_def loose_disk_def)
  have c: "snd (read_table loose_disk ''plan.csv'') = Inr plan_two_missing"
    by (simp add: read_table_def splitext_def lower_def try_read_csv_def encodings_def
        loose_disk_def)
  have v: "clean_and_validate_data plan_two_missing
      = Inl (ValueError, Missing_columns [''Activity'', ''Responsible Person''])"
    by (simp add: clean_and_validate_data_cases plan_two_missing_def required_columns_def)
  have e: "path_exists loose_disk ''plan.txt''" "path_exists loose_disk ''plan.csv''"
    by (simp_all add: loose_disk_def)
  have a: "snd (read_and_process_data loose_disk ''plan.txt'' ''08/11/2024 17:00'' ''10/11/2024 23:59'')
       = Inl (Exception, Error_processing (Unsupported_format ''.txt''))"
    using stage_failures_are_wrapped
      [of loose_disk "''plan.txt''" "''08/11/2024 17:00''" "''10/11/2024 23:59''"] e t
    by simp
  have b: "snd (read_and_process_data loose_disk ''plan.csv'' ''08/11/2024 17:00'' ''10/11/2024 23:59'')
       = Inl (Exception,
              Error_processing (Missing_columns [''Activity'', ''Responsible Person'']))"
    using stage_failures_are_wrapped
      [of loose_disk "''plan.csv''" "''08/11/2024 17:00''" "''10/11/2024 23:59''"] e c v
    by simp
  show ?thesis using e a b by simp
qed

text \<open>
  C2 as stated fails: on the empty disk the run raises \<^verbatim>\<open>FileNotFoundError\<close> itself,
  not a plain \<^verbatim>\<open>Exception\<close> around it.
\<close>

theorem missing_file_counterexample:
  "\<not> path_exists empty_disk ''plan.csv''
   \<and> snd (read_and_process_data empty_disk ''plan.csv'' ''08/11/2024 17:00'' ''10/11/2024 23:59'')
       = Inl (FileNotFoundError, File_missing ''plan.csv'')
   \<and> snd (read_and_process_data empty_disk ''plan.csv'' ''08/11/2024 17:00'' ''10/11/2024 23:59'')
       \<noteq> Inl (Exception, Error_processing (File_missing ''plan.csv''))"
  by (simp add: snd_read_and_process_data empty_disk_def)

end
